theory Spec2Isabelle
  imports Main "HOL-Library.Finite_Map"
begin

section \<open>Dataset versions MAJOR.MINOR.PATCH (tensorflow\_datasets/core/utils/version.py)\<close>

text \<open>
  The module is read under Python 3. A Python \<open>str\<close> is modelled as a \<open>string\<close> whose
  characters are the code points U+0000 to U+00FF; in that range the regular-expression class
  \<open>\d\<close> matches exactly the ten characters \<open>0\<close> to \<open>9\<close>. Python integers are unbounded and
  are modelled as \<open>int\<close>; \<open>int(...)\<close> and \<open>str(...)\<close> on integers are taken without the
  interpreter's optional limit on the number of digits.
\<close>

subsection \<open>Python values the module handles\<close>

text \<open>The enumeration \<open>Feature\<close> has the single member \<open>DUMMY = 1\<close>.\<close>

datatype Feature = DUMMY

text \<open>
  Dictionary keys. A dictionary accepts any hashable object as a key and the module never checks
  that a key is a \<open>Feature\<close>, so besides the enumeration members the model has string and integer
  keys.
\<close>

datatype pykey = KFeature Feature | KStr string | KInt int

text \<open>
  One component of a parsed version: the integer produced by \<open>int(v)\<close>, or the string \<open>"*"\<close>
  kept as it is. Python's \<open>==\<close> between an integer and a string is false, between two integers
  it is numerical equality, so \<open>==\<close> on components is equality of this datatype.
\<close>

datatype component = Num int | Wildcard

text \<open>
  An instance of \<open>class Version\<close>: the attributes \<open>_features\<close>, \<open>major\<close>, \<open>minor\<close> and
  \<open>patch\<close>. The three version attributes hold whatever \<open>_str_to_version\<close> returned.
\<close>

record Version =
  features :: "(pykey, bool) fmap"
  major :: component
  minor :: component
  patch :: component

text \<open>The objects that can stand on the right of a comparison.\<close>

datatype pyobj = PyStr string | PyVersion Version | PyInt int | PyBool bool | PyNone

text \<open>
  The exceptions the module raises: \<open>ValueError\<close> from \<open>_str_to_version\<close>, \<open>KeyError\<close> from
  the dictionary lookup in \<open>implements\<close>, \<open>AssertionError\<close> from \<open>_validate_operand\<close>, and
  the \<open>TypeError\<close> of \<open><\<close> between an integer and a string.
\<close>

datatype error =
    ValueError string
  | KeyError pykey
  | AssertionError string
  | TypeError string

subsection \<open>Integers and their decimal text\<close>

definition is_digit :: "char \<Rightarrow> bool" where
  "is_digit c \<longleftrightarrow> 48 \<le> (of_char c :: nat) \<and> (of_char c :: nat) \<le> 57"

definition digit_val :: "char \<Rightarrow> int" where
  "digit_val c = int (of_char c) - 48"

text \<open>\<open>int(v)\<close> for a string of decimal digits; leading zeros are allowed.\<close>

definition py_int :: "string \<Rightarrow> int" where
  "py_int v = foldl (\<lambda>n c. 10 * n + digit_val c) 0 v"

definition digit_char :: "nat \<Rightarrow> char" where
  "digit_char d = ''0123456789'' ! d"

fun str_nat :: "nat \<Rightarrow> string" where
  "str_nat n = (if n < 10 then [digit_char n] else str_nat (n div 10) @ [digit_char (n mod 10)])"

declare str_nat.simps [simp del]

text \<open>\<open>str(i)\<close>, which is also what \<open>"{}".format(i)\<close> inserts for an integer.\<close>

definition str_int :: "int \<Rightarrow> string" where
  "str_int i = (if i < 0 then CHR ''-'' # str_nat (nat (- i)) else str_nat (nat i))"

subsection \<open>The two regular expressions\<close>

text \<open>
  \<open>_VERSION_TMPL\<close> is \<open>^(?P<major>{v})\.(?P<minor>{v})\.(?P<patch>{v})$\<close>, with
  \<open>{v}\<close> replaced by \<open>\d+|\*\<close> for \<open>_VERSION_WILDCARD_REG\<close> and by \<open>\d+\<close> for
  \<open>_VERSION_RESOLVED_REG\<close>. The backtracking matcher is modelled by lists of successes: each
  piece of the pattern maps the text still to be read to the list of ways it can match a prefix
  of it, in the order in which \<open>re\<close> tries them, and the match found is the first success of
  the whole sequence.
\<close>

text \<open>\<open>\d+\<close> is greedy: the longest run of digits first, then shorter ones, at least one.\<close>

definition digits_plus :: "string \<Rightarrow> (string \<times> string) list" where
  "digits_plus s =
     map (\<lambda>k. (take k s, drop k s)) (rev [1 ..< Suc (length (takeWhile is_digit s))])"

text \<open>\<open>\*\<close>: the literal star.\<close>

definition star_lit :: "string \<Rightarrow> (string \<times> string) list" where
  "star_lit s = (case s of [] \<Rightarrow> [] | c # r \<Rightarrow> if c = CHR ''*'' then [(''*'', r)] else [])"

text \<open>The group \<open>({v})\<close>: \<open>\d+\<close> is tried before \<open>\*\<close>.\<close>

definition group_v :: "bool \<Rightarrow> string \<Rightarrow> (string \<times> string) list" where
  "group_v allow_wildcard s = digits_plus s @ (if allow_wildcard then star_lit s else [])"

text \<open>\<open>\.\<close>: the literal dot.\<close>

definition dot_lit :: "string \<Rightarrow> string list" where
  "dot_lit s = (case s of [] \<Rightarrow> [] | c # r \<Rightarrow> if c = CHR ''.'' then [r] else [])"

text \<open>
  \<open>$\<close> without \<open>re.MULTILINE\<close>: at the end of the string, and also just before a newline that
  is the last character of the string.
\<close>

definition at_end :: "string \<Rightarrow> bool" where
  "at_end s \<longleftrightarrow> s = [] \<or> s = [CHR 0x0A]"

text \<open>
  \<open>reg.match(version_str)\<close>: the groups \<open>major\<close>, \<open>minor\<close>, \<open>patch\<close> of the first success,
  or \<open>None\<close>. \<open>match\<close> starts at the first character, where \<open>^\<close> holds.
\<close>

definition reg_match :: "bool \<Rightarrow> string \<Rightarrow> (string \<times> string \<times> string) option" where
  "reg_match allow_wildcard s =
     (case List.bind (group_v allow_wildcard s) (\<lambda>(ma, r1).
           List.bind (dot_lit r1) (\<lambda>r2.
           List.bind (group_v allow_wildcard r2) (\<lambda>(mi, r3).
           List.bind (dot_lit r3) (\<lambda>r4.
           List.bind (group_v allow_wildcard r4) (\<lambda>(pa, r5).
           if at_end r5 then [(ma, mi, pa)] else [])))))
      of [] \<Rightarrow> None | res # _ \<Rightarrow> Some res)"

subsection \<open>\<open>_str_to_version\<close>\<close>

text \<open>A text between two apostrophes.\<close>

definition quoted :: "string \<Rightarrow> string" where
  "quoted s = [CHR 0x27] @ s @ [CHR 0x27]"

definition invalid_version_msg :: "string \<Rightarrow> bool \<Rightarrow> string" where
  "invalid_version_msg version_str allow_wildcard =
     ''Invalid version '' @ quoted version_str @ ''. Format should be x.y.z'' @
     (if allow_wildcard then '' with {x,y,z} being digits or wildcard.''
      else '' with {x,y,z} being digits.'')"

text \<open>\<open>v if v == "*" else int(v)\<close>\<close>

definition convert :: "string \<Rightarrow> component" where
  "convert v = (if v = ''*'' then Wildcard else Num (py_int v))"

definition str_to_version :: "string \<Rightarrow> bool \<Rightarrow> error + component \<times> component \<times> component" where
  "str_to_version version_str allow_wildcard =
     (case reg_match allow_wildcard version_str of
        None \<Rightarrow> Inl (ValueError (invalid_version_msg version_str allow_wildcard))
      | Some (ma, mi, pa) \<Rightarrow> Inr (convert ma, convert mi, convert pa))"

subsection \<open>\<open>class Version\<close>\<close>

text \<open>The class attribute \<open>_DEFAULT_FEATURES = {Feature.DUMMY: False}\<close>.\<close>

definition DEFAULT_FEATURES :: "(pykey, bool) fmap" where
  "DEFAULT_FEATURES = fmupd (KFeature DUMMY) False fmempty"

text \<open>
  \<open>__init__(self, version_str, features=None)\<close>. The instance dictionary is a copy of the
  class attribute; \<open>if features:\<close> holds for a dictionary that is not empty, and \<open>update\<close>
  then stores every entry of \<open>features\<close> in the copy. The version string is parsed last; when
  the parser raises, no instance exists.
\<close>

definition Version_init :: "string \<Rightarrow> (pykey, bool) fmap option \<Rightarrow> error + Version" where
  "Version_init version_str feats =
     (let fs = DEFAULT_FEATURES;
          fs = (case feats of
                  None \<Rightarrow> fs
                | Some f \<Rightarrow> if fmdom f \<noteq> {||} then fs ++\<^sub>f f else fs)
      in case str_to_version version_str False of
           Inl e \<Rightarrow> Inl e
         | Inr (ma, mi, pa) \<Rightarrow> Inr \<lparr>features = fs, major = ma, minor = mi, patch = pa\<rparr>)"

text \<open>\<open>implements\<close>: \<open>self._features[feature]\<close>, a \<open>KeyError\<close> when the key is absent.\<close>

definition implements :: "Version \<Rightarrow> pykey \<Rightarrow> error + bool" where
  "implements self feature =
     (case fmlookup (features self) feature of
        None \<Rightarrow> Inl (KeyError feature)
      | Some b \<Rightarrow> Inr b)"

text \<open>What \<open>"{}".format(x)\<close> inserts for a component.\<close>

fun str_component :: "component \<Rightarrow> string" where
  "str_component (Num n) = str_int n"
| "str_component Wildcard = ''*''"

text \<open>\<open>__str__\<close>: \<open>"{}.{}.{}".format(self.major, self.minor, self.patch)\<close>\<close>

definition Version_str :: "Version \<Rightarrow> string" where
  "Version_str self =
     str_component (major self) @ ''.'' @ str_component (minor self) @ ''.'' @
     str_component (patch self)"

definition tuple :: "Version \<Rightarrow> component \<times> component \<times> component" where
  "tuple self = (major self, minor self, patch self)"

text \<open>\<open>str(other)\<close> and \<open>str(type(other))\<close>, as \<open>format\<close> inserts them in the message.\<close>

fun py_str :: "pyobj \<Rightarrow> string" where
  "py_str (PyStr s) = s"
| "py_str (PyVersion v) = Version_str v"
| "py_str (PyInt i) = str_int i"
| "py_str (PyBool b) = (if b then ''True'' else ''False'')"
| "py_str PyNone = ''None''"

fun py_type :: "pyobj \<Rightarrow> string" where
  "py_type (PyStr _) = ''<class 'str'>''"
| "py_type (PyVersion _) = ''<class 'tensorflow_datasets.core.utils.version.Version'>''"
| "py_type (PyInt _) = ''<class 'int'>''"
| "py_type (PyBool _) = ''<class 'bool'>''"
| "py_type PyNone = ''<class 'NoneType'>''"

definition cannot_compare_msg :: "pyobj \<Rightarrow> string" where
  "cannot_compare_msg other =
     py_str other @ '' (type '' @ py_type other @ '') cannot be compared to version.''"

text \<open>\<open>isinstance(other, six.string_types)\<close> and \<open>isinstance(other, Version)\<close>.\<close>

fun isinstance_str :: "pyobj \<Rightarrow> bool" where
  "isinstance_str (PyStr _) = True"
| "isinstance_str _ = False"

fun isinstance_Version :: "pyobj \<Rightarrow> bool" where
  "isinstance_Version (PyVersion _) = True"
| "isinstance_Version _ = False"

text \<open>
  \<open>_validate_operand\<close>: a string is parsed by the constructor, with no features; a
  \<open>Version\<close> is returned as it is; for any other object the \<open>AssertionError\<close> is raised.
\<close>

definition validate_operand :: "Version \<Rightarrow> pyobj \<Rightarrow> error + Version" where
  "validate_operand self other =
     (case other of
        PyStr s \<Rightarrow> Version_init s None
      | PyVersion w \<Rightarrow> Inr w
      | _ \<Rightarrow> Inl (AssertionError (cannot_compare_msg other)))"

text \<open>
  \<open><\<close> on two components: numerical on integers; an integer and a string are not ordered
  (\<open>TypeError\<close>); on two strings it is the order of strings, and \<open>"*" < "*"\<close> is false.
\<close>

definition not_supported_msg :: "string \<Rightarrow> string \<Rightarrow> string" where
  "not_supported_msg l r =
     quoted ''<'' @ '' not supported between instances of '' @ quoted l @ '' and '' @ quoted r"

fun component_lt :: "component \<Rightarrow> component \<Rightarrow> error + bool" where
  "component_lt (Num a) (Num b) = Inr (a < b)"
| "component_lt Wildcard Wildcard = Inr False"
| "component_lt (Num a) Wildcard = Inl (TypeError (not_supported_msg ''int'' ''str''))"
| "component_lt Wildcard (Num b) = Inl (TypeError (not_supported_msg ''str'' ''int''))"

text \<open>
  \<open><\<close> on two 3-tuples: the first position where the items are not \<open>==\<close> decides, by
  \<open><\<close> on the two items there; tuples equal in every position are not less.
\<close>

definition tuple_lt ::
  "component \<times> component \<times> component \<Rightarrow> component \<times> component \<times> component \<Rightarrow> error + bool" where
  "tuple_lt t u =
     (case (t, u) of ((a1, b1, c1), (a2, b2, c2)) \<Rightarrow>
        if a1 \<noteq> a2 then component_lt a1 a2
        else if b1 \<noteq> b2 then component_lt b1 b2
        else if c1 \<noteq> c2 then component_lt c1 c2
        else Inr False)"

text \<open>\<open>__eq__\<close> and \<open>__lt__\<close>, the two comparisons the class writes out.\<close>

definition Version_eq :: "Version \<Rightarrow> pyobj \<Rightarrow> error + bool" where
  "Version_eq self other =
     (case validate_operand self other of
        Inl e \<Rightarrow> Inl e
      | Inr w \<Rightarrow> Inr (tuple self = tuple w))"

definition Version_lt :: "Version \<Rightarrow> pyobj \<Rightarrow> error + bool" where
  "Version_lt self other =
     (case validate_operand self other of
        Inl e \<Rightarrow> Inl e
      | Inr w \<Rightarrow> tuple_lt (tuple self) (tuple w))"

text \<open>
  The other four come from Python 3 and \<open>functools.total_ordering\<close>:
  \<open>!=\<close> inverts \<open>__eq__\<close>; \<open><=\<close> is \<open>(a < b) or (a == b)\<close>; \<open>>\<close> is
  \<open>(not a < b) and (a != b)\<close>; \<open>>=\<close> is \<open>not a < b\<close>. \<open>or\<close> and \<open>and\<close> evaluate their
  second operand only when the first does not decide.
\<close>

definition Version_ne :: "Version \<Rightarrow> pyobj \<Rightarrow> error + bool" where
  "Version_ne self other =
     (case Version_eq self other of Inl e \<Rightarrow> Inl e | Inr r \<Rightarrow> Inr (\<not> r))"

definition Version_le :: "Version \<Rightarrow> pyobj \<Rightarrow> error + bool" where
  "Version_le self other =
     (case Version_lt self other of
        Inl e \<Rightarrow> Inl e
      | Inr op_result \<Rightarrow> if op_result then Inr True else Version_eq self other)"

definition Version_gt :: "Version \<Rightarrow> pyobj \<Rightarrow> error + bool" where
  "Version_gt self other =
     (case Version_lt self other of
        Inl e \<Rightarrow> Inl e
      | Inr op_result \<Rightarrow> if \<not> op_result then Version_ne self other else Inr False)"

definition Version_ge :: "Version \<Rightarrow> pyobj \<Rightarrow> error + bool" where
  "Version_ge self other =
     (case Version_lt self other of
        Inl e \<Rightarrow> Inl e
      | Inr op_result \<Rightarrow> Inr (\<not> op_result))"

text \<open>
  \<open>match\<close>: \<open>x in [a, "*"]\<close> is \<open>x == a or x == "*"\<close>.
\<close>

definition Version_match :: "Version \<Rightarrow> string \<Rightarrow> error + bool" where
  "Version_match self other_version =
     (case str_to_version other_version True of
        Inl e \<Rightarrow> Inl e
      | Inr (major', minor', patch') \<Rightarrow>
          Inr (major' \<in> set [major self, Wildcard] \<and>
               minor' \<in> set [minor self, Wildcard] \<and>
               patch' \<in> set [patch self, Wildcard]))"

subsection \<open>The text the patterns describe\<close>

text \<open>
  \<open>is_number\<close> is the text \<open>\d+\<close> describes, \<open>is_comp\<close> the text of one component
  (\<open>\d+\<close>, or \<open>\*\<close> when wildcards are allowed). \<open>lex_v\<close> reads one component without
  backtracking: the whole run of digits if there is one, else the star.
\<close>

definition is_number :: "string \<Rightarrow> bool" where
  "is_number x \<longleftrightarrow> x \<noteq> [] \<and> list_all is_digit x"

definition is_comp :: "bool \<Rightarrow> string \<Rightarrow> bool" where
  "is_comp allow_wildcard x \<longleftrightarrow> is_number x \<or> (allow_wildcard \<and> x = ''*'')"

definition lex_v :: "bool \<Rightarrow> string \<Rightarrow> (string \<times> string) option" where
  "lex_v allow_wildcard s =
     (if takeWhile is_digit s \<noteq> [] then Some (takeWhile is_digit s, dropWhile is_digit s)
      else case s of [] \<Rightarrow> None
           | c # r \<Rightarrow> if allow_wildcard \<and> c = CHR ''*'' then Some (''*'', r) else None)"

subsection \<open>Notions used in the statements\<close>

text \<open>
  The instance dictionary after \<open>__init__\<close>; updating with an empty dictionary changes
  nothing, so the test \<open>if features:\<close> does not show in it.
\<close>

definition instance_features :: "(pykey, bool) fmap option \<Rightarrow> (pykey, bool) fmap" where
  "instance_features feats =
     (case feats of None \<Rightarrow> DEFAULT_FEATURES | Some f \<Rightarrow> DEFAULT_FEATURES ++\<^sub>f f)"

text \<open>
  The format the error message and the specification describe: exactly three components
  separated by two dots, nothing before and nothing after.
\<close>

definition version_format :: "bool \<Rightarrow> string \<Rightarrow> bool" where
  "version_format allow_wildcard s \<longleftrightarrow>
     (\<exists>x y z. is_comp allow_wildcard x \<and> is_comp allow_wildcard y \<and> is_comp allow_wildcard z \<and>
        s = x @ ''.'' @ y @ ''.'' @ z)"

text \<open>
  A call of one method of an instance, and what it returns. None of the methods assigns to an
  attribute of \<open>self\<close>; \<open>call\<close> gives the result together with the instance as it is after
  the call.
\<close>

datatype method_call =
    Call_implements pykey
  | Call_str
  | Call_tuple
  | Call_eq pyobj
  | Call_ne pyobj
  | Call_lt pyobj
  | Call_le pyobj
  | Call_gt pyobj
  | Call_ge pyobj
  | Call_match string

datatype pyresult = RBool bool | RStr string | RTuple "component \<times> component \<times> component"

definition returned_bool :: "error + bool \<Rightarrow> error + pyresult" where
  "returned_bool r = (case r of Inl e \<Rightarrow> Inl e | Inr b \<Rightarrow> Inr (RBool b))"

fun call :: "Version \<Rightarrow> method_call \<Rightarrow> (error + pyresult) \<times> Version" where
  "call self (Call_implements feature) = (returned_bool (implements self feature), self)"
| "call self Call_str = (Inr (RStr (Version_str self)), self)"
| "call self Call_tuple = (Inr (RTuple (tuple self)), self)"
| "call self (Call_eq other) = (returned_bool (Version_eq self other), self)"
| "call self (Call_ne other) = (returned_bool (Version_ne self other), self)"
| "call self (Call_lt other) = (returned_bool (Version_lt self other), self)"
| "call self (Call_le other) = (returned_bool (Version_le self other), self)"
| "call self (Call_gt other) = (returned_bool (Version_gt self other), self)"
| "call self (Call_ge other) = (returned_bool (Version_ge self other), self)"
| "call self (Call_match other_version) = (returned_bool (Version_match self other_version), self)"

text \<open>The instance after a sequence of calls.\<close>

fun after_calls :: "Version \<Rightarrow> method_call list \<Rightarrow> Version" where
  "after_calls self [] = self"
| "after_calls self (c # cs) = after_calls (snd (call self c)) cs"

text \<open>
  The order the specification describes on triples of integers: major first, on a tie minor,
  on a tie patch.
\<close>

definition lex_less :: "int \<times> int \<times> int \<Rightarrow> int \<times> int \<times> int \<Rightarrow> bool" where
  "lex_less t u =
     (case (t, u) of ((a1, b1, c1), (a2, b2, c2)) \<Rightarrow>
        a1 < a2 \<or> (a1 = a2 \<and> (b1 < b2 \<or> (b1 = b2 \<and> c1 < c2))))"

section \<open>Decimal text of integers\<close>

lemma digit_char_props:
  assumes "d < 10"
  shows "is_digit (digit_char d)" and "digit_val (digit_char d) = int d"
proof -
  from assms have "d \<in> {0,1,2,3,4,5,6,7,8,9}" by auto
  then show "is_digit (digit_char d)" and "digit_val (digit_char d) = int d"
    by (auto simp: is_digit_def digit_val_def digit_char_def)
qed

lemma py_int_snoc: "py_int (v @ [c]) = 10 * py_int v + digit_val c"
  by (simp add: py_int_def)

lemma str_nat_nonempty: "str_nat n \<noteq> []"
  by (subst str_nat.simps) simp

lemma str_nat_digits: "\<forall>c \<in> set (str_nat n). is_digit c"
proof (induction n rule: str_nat.induct)
  case (1 n)
  show ?case
  proof (cases "n < 10")
    case True
    then show ?thesis by (subst str_nat.simps) (simp add: digit_char_props)
  next
    case False
    with 1 show ?thesis by (subst str_nat.simps) (simp add: digit_char_props)
  qed
qed

lemma py_int_str_nat: "py_int (str_nat n) = int n"
proof (induction n rule: str_nat.induct)
  case (1 n)
  show ?case
  proof (cases "n < 10")
    case True
    then show ?thesis by (subst str_nat.simps) (simp add: py_int_def digit_char_props)
  next
    case False
    with 1 have "py_int (str_nat (n div 10)) = int (n div 10)" by simp
    moreover have "10 * int (n div 10) + int (n mod 10) = int n"
      by presburger
    ultimately show ?thesis using False
      by (subst str_nat.simps) (simp add: py_int_snoc digit_char_props)
  qed
qed

lemma py_int_nonneg: "\<forall>c \<in> set v. is_digit c \<Longrightarrow> 0 \<le> py_int v"
proof (induction v rule: rev_induct)
  case Nil
  show ?case by (simp add: py_int_def)
next
  case (snoc c v)
  then have "0 \<le> py_int v" and "is_digit c" by simp_all
  then show ?case by (simp add: py_int_snoc is_digit_def digit_val_def)
qed

section \<open>The regular expressions read without backtracking\<close>

lemma bind_all_empty: "(\<And>x. x \<in> set xs \<Longrightarrow> k x = []) \<Longrightarrow> List.bind xs k = []"
  by (induction xs) simp_all

lemma digits_plus_bind:
  assumes k: "\<And>x r. r \<noteq> [] \<Longrightarrow> is_digit (hd r) \<Longrightarrow> k (x, r) = []"
  shows "List.bind (digits_plus s) k =
           (if takeWhile is_digit s = [] then []
            else k (takeWhile is_digit s, dropWhile is_digit s))"
proof (cases "takeWhile is_digit s = []")
  case True
  then show ?thesis by (simp add: digits_plus_def)
next
  case False
  define n where "n = length (takeWhile is_digit s)"
  define f where "f = (\<lambda>j. (take j s, drop j s))"
  from False have npos: "0 < n" by (simp add: n_def)
  then have up: "rev [1 ..< Suc n] = n # rev [1 ..< n]" by simp
  have shorter: "k (f j) = []" if "j \<in> set [1 ..< n]" for j
  proof -
    from that have jn: "j < n" by simp
    then have jl: "j < length s"
      using length_takeWhile_le [of is_digit s] by (simp add: n_def)
    have "is_digit (s ! j)"
      using jn nth_mem [of j "takeWhile is_digit s"] takeWhile_nth [of j is_digit s]
        set_takeWhileD [of "takeWhile is_digit s ! j" is_digit s]
      by (simp add: n_def)
    moreover from jl have "drop j s \<noteq> []" and "hd (drop j s) = s ! j"
      by (simp_all add: hd_drop_conv_nth)
    ultimately show ?thesis by (simp add: f_def k)
  qed
  have "digits_plus s = map f (rev [1 ..< Suc n])"
    unfolding digits_plus_def n_def f_def ..
  then have "digits_plus s = map f (n # rev [1 ..< n])"
    by (simp only: up)
  then have "List.bind (digits_plus s) k = k (f n) @ List.bind (map f (rev [1 ..< n])) k"
    by simp
  also have "List.bind (map f (rev [1 ..< n])) k = []"
    by (rule bind_all_empty) (auto simp: shorter)
  also have "f n = (takeWhile is_digit s, dropWhile is_digit s)"
    by (simp add: f_def n_def takeWhile_eq_take [symmetric] dropWhile_eq_drop [symmetric])
  finally show ?thesis using False by simp
qed

lemma group_v_bind:
  assumes k: "\<And>x r. r \<noteq> [] \<Longrightarrow> is_digit (hd r) \<Longrightarrow> k (x, r) = []"
  shows "List.bind (group_v allow s) k = (case lex_v allow s of None \<Rightarrow> [] | Some p \<Rightarrow> k p)"
proof (cases "takeWhile is_digit s = []")
  case False
  then have "star_lit s = []"
    by (cases s) (auto simp: star_lit_def is_digit_def)
  with False show ?thesis
    by (simp add: group_v_def lex_v_def digits_plus_bind [of k, OF k])
next
  case True
  then show ?thesis
    by (cases s) (simp_all add: group_v_def lex_v_def digits_plus_def star_lit_def)
qed

lemma dot_lit_digit: "r \<noteq> [] \<Longrightarrow> is_digit (hd r) \<Longrightarrow> dot_lit r = []"
  by (cases r) (auto simp: dot_lit_def is_digit_def)

lemma at_end_digit: "r \<noteq> [] \<Longrightarrow> is_digit (hd r) \<Longrightarrow> \<not> at_end r"
  by (cases r) (auto simp: at_end_def is_digit_def)

lemma dot_lit_cases: "dot_lit r = [] \<or> (\<exists>r'. dot_lit r = [r'] \<and> r = CHR ''.'' # r')"
  by (cases r) (auto simp: dot_lit_def)

lemma dot_lit_bind:
  "List.bind (dot_lit r) k = (case dot_lit r of [] \<Rightarrow> [] | r' # _ \<Rightarrow> k r')"
  using dot_lit_cases [of r] by auto

lemma reg_match_det:
  "reg_match allow s =
     (case (case lex_v allow s of None \<Rightarrow> [] | Some (ma, r1) \<Rightarrow>
            (case dot_lit r1 of [] \<Rightarrow> [] | r2 # _ \<Rightarrow>
            (case lex_v allow r2 of None \<Rightarrow> [] | Some (mi, r3) \<Rightarrow>
            (case dot_lit r3 of [] \<Rightarrow> [] | r4 # _ \<Rightarrow>
            (case lex_v allow r4 of None \<Rightarrow> [] | Some (pa, r5) \<Rightarrow>
               if at_end r5 then [(ma, mi, pa)] else [])))))
      of [] \<Rightarrow> None | res # _ \<Rightarrow> Some res)"
proof -
  let ?k3 = "\<lambda>ma mi. \<lambda>(pa, r5). if at_end r5 then [(ma :: string, mi :: string, pa)] else []"
  let ?k2 = "\<lambda>ma. \<lambda>(mi, r3). List.bind (dot_lit r3) (\<lambda>r4. List.bind (group_v allow r4) (?k3 ma mi))"
  let ?k1 = "\<lambda>(ma, r1). List.bind (dot_lit r1) (\<lambda>r2. List.bind (group_v allow r2) (?k2 ma))"
  have s3: "List.bind (group_v allow r) (?k3 ma mi) =
              (case lex_v allow r of None \<Rightarrow> [] | Some p \<Rightarrow> ?k3 ma mi p)" for r ma mi
    by (rule group_v_bind) (simp add: at_end_digit)
  have s2: "List.bind (group_v allow r) (?k2 ma) =
              (case lex_v allow r of None \<Rightarrow> [] | Some p \<Rightarrow> ?k2 ma p)" for r ma
    by (rule group_v_bind) (simp add: dot_lit_digit)
  have s1: "List.bind (group_v allow r) ?k1 =
              (case lex_v allow r of None \<Rightarrow> [] | Some p \<Rightarrow> ?k1 p)" for r
    by (rule group_v_bind) (simp add: dot_lit_digit)
  show ?thesis
    unfolding reg_match_def
    by (simp only: s1) (simp only: s2, simp only: s3, simp only: dot_lit_bind)
qed

lemma takeWhile_number:
  assumes "list_all is_digit x" and "r = [] \<or> \<not> is_digit (hd r)"
  shows "takeWhile is_digit (x @ r) = x" and "dropWhile is_digit (x @ r) = r"
proof -
  from assms(2) have "takeWhile is_digit r = []" and "dropWhile is_digit r = r"
    by (cases r; simp)+
  with assms(1) show "takeWhile is_digit (x @ r) = x" and "dropWhile is_digit (x @ r) = r"
    by (simp_all add: list_all_iff)
qed

lemma lex_v_number:
  "is_number x \<Longrightarrow> r = [] \<or> \<not> is_digit (hd r) \<Longrightarrow> lex_v allow (x @ r) = Some (x, r)"
  by (simp add: lex_v_def is_number_def takeWhile_number)

lemma lex_v_star: "\<not> is_digit c \<Longrightarrow> lex_v True (''*'' @ c # r) = Some (''*'', c # r)"
  by (simp add: lex_v_def is_digit_def)

lemma lex_v_star_end: "at_end e \<Longrightarrow> lex_v True (''*'' @ e) = Some (''*'', e)"
  by (auto simp: lex_v_def is_digit_def at_end_def)

lemma lex_v_sound:
  assumes "lex_v allow s = Some (x, r)"
  shows "is_comp allow x \<and> s = x @ r"
proof (cases "takeWhile is_digit s = []")
  case False
  with assms have "x = takeWhile is_digit s" and "r = dropWhile is_digit s"
    by (simp_all add: lex_v_def)
  with False show ?thesis
    by (auto simp: is_comp_def is_number_def list_all_iff dest: set_takeWhileD)
next
  case True
  with assms show ?thesis
    by (cases s) (auto simp: lex_v_def is_comp_def split: if_splits)
qed

lemma not_digit_dot: "\<not> is_digit CHR ''.''"
  by (simp add: is_digit_def)

lemma at_end_no_digit: "at_end e \<Longrightarrow> e = [] \<or> \<not> is_digit (hd e)"
  by (auto simp: at_end_def is_digit_def)

lemma lex_v_comp_dot:
  "is_comp allow x \<Longrightarrow> lex_v allow (x @ CHR ''.'' # r) = Some (x, CHR ''.'' # r)"
  using lex_v_number [of x "CHR ''.'' # r" allow] lex_v_star [of "CHR ''.''" r]
  by (auto simp: is_comp_def not_digit_dot)

lemma lex_v_comp_end:
  "is_comp allow x \<Longrightarrow> at_end e \<Longrightarrow> lex_v allow (x @ e) = Some (x, e)"
  using lex_v_number [of x e allow] lex_v_star_end [of e] at_end_no_digit [of e]
  by (auto simp: is_comp_def)

lemma reg_match_complete:
  assumes "is_comp allow x" "is_comp allow y" "is_comp allow z" "at_end e"
  shows "reg_match allow (x @ ''.'' @ y @ ''.'' @ z @ e) = Some (x, y, z)"
  using assms
  by (simp add: reg_match_det lex_v_comp_dot lex_v_comp_end dot_lit_def)

lemma reg_match_sound:
  assumes "reg_match allow s = Some (x, y, z)"
  shows "is_comp allow x \<and> is_comp allow y \<and> is_comp allow z \<and>
         (\<exists>e. at_end e \<and> s = x @ ''.'' @ y @ ''.'' @ z @ e)"
proof -
  from assms obtain r1 where 1: "lex_v allow s = Some (x, r1)"
    by (auto simp: reg_match_det split: option.splits list.splits if_splits)
  with assms obtain r2 where 2: "dot_lit r1 = [r2]"
    using dot_lit_cases [of r1] by (auto simp: reg_match_det)
  with 1 assms obtain r3 where 3: "lex_v allow r2 = Some (y, r3)"
    by (auto simp: reg_match_det split: option.splits list.splits if_splits)
  with 1 2 assms obtain r4 where 4: "dot_lit r3 = [r4]"
    using dot_lit_cases [of r3] by (auto simp: reg_match_det)
  with 1 2 3 assms obtain r5 where 5: "lex_v allow r4 = Some (z, r5)" and 6: "at_end r5"
    by (auto simp: reg_match_det split: option.splits list.splits if_splits)
  from 2 have "r1 = CHR ''.'' # r2" using dot_lit_cases [of r1] by auto
  moreover from 4 have "r3 = CHR ''.'' # r4" using dot_lit_cases [of r3] by auto
  ultimately show ?thesis
    using lex_v_sound [OF 1] lex_v_sound [OF 3] lex_v_sound [OF 5] 6 by auto
qed

section \<open>The parser and the constructor\<close>

lemma is_number_not_star: "is_number x \<Longrightarrow> x \<noteq> ''*''"
  by (auto simp: is_number_def is_digit_def)

lemma convert_number: "is_number x \<Longrightarrow> convert x = Num (py_int x)"
  by (simp add: convert_def is_number_not_star)

lemma convert_star: "convert ''*'' = Wildcard"
  by (simp add: convert_def)

lemma is_number_nonneg: "is_number x \<Longrightarrow> 0 \<le> py_int x"
  by (simp add: is_number_def list_all_iff py_int_nonneg)

lemma is_number_str_nat: "is_number (str_nat n)"
  using str_nat_digits [of n] by (simp add: is_number_def str_nat_nonempty list_all_iff)

lemma str_to_version_complete:
  assumes "is_comp allow x" "is_comp allow y" "is_comp allow z" "at_end e"
  shows "str_to_version (x @ ''.'' @ y @ ''.'' @ z @ e) allow =
           Inr (convert x, convert y, convert z)"
  using reg_match_complete [OF assms] by (simp add: str_to_version_def)

lemma str_to_version_sound:
  assumes "str_to_version s allow = Inr (a, b, c)"
  shows "\<exists>x y z e. is_comp allow x \<and> is_comp allow y \<and> is_comp allow z \<and> at_end e \<and>
           s = x @ ''.'' @ y @ ''.'' @ z @ e \<and> a = convert x \<and> b = convert y \<and> c = convert z"
proof -
  from assms obtain x y z where m: "reg_match allow s = Some (x, y, z)"
    and c: "a = convert x" "b = convert y" "c = convert z"
    by (auto simp: str_to_version_def split: option.splits)
  from reg_match_sound [OF m] c show ?thesis by blast
qed

lemma str_to_version_cases:
  "str_to_version s allow = Inl (ValueError (invalid_version_msg s allow)) \<or>
   (\<exists>t. str_to_version s allow = Inr t)"
  by (auto simp: str_to_version_def split: option.splits)

lemma fmadd_no_keys: "fmdom f = {||} \<Longrightarrow> m ++\<^sub>f f = m"
  by (rule fmap_ext) auto

lemma Version_init_unfold:
  "Version_init s feats =
     (case str_to_version s False of
        Inl e \<Rightarrow> Inl e
      | Inr (ma, mi, pa) \<Rightarrow>
          Inr \<lparr>features = instance_features feats, major = ma, minor = mi, patch = pa\<rparr>)"
  by (simp add: Version_init_def instance_features_def Let_def fmadd_no_keys
      split: option.splits sum.splits)

lemma Version_init_accepts:
  assumes "is_number x" "is_number y" "is_number z" "at_end e"
  shows "Version_init (x @ ''.'' @ y @ ''.'' @ z @ e) feats =
           Inr \<lparr>features = instance_features feats, major = Num (py_int x),
                minor = Num (py_int y), patch = Num (py_int z)\<rparr>"
  using assms str_to_version_complete [of False x y z e]
  by (simp add: Version_init_unfold is_comp_def convert_number)

lemma Version_init_sound:
  assumes "Version_init s feats = Inr v"
  shows "\<exists>x y z e. is_number x \<and> is_number y \<and> is_number z \<and> at_end e \<and>
           s = x @ ''.'' @ y @ ''.'' @ z @ e \<and>
           v = \<lparr>features = instance_features feats, major = Num (py_int x),
                minor = Num (py_int y), patch = Num (py_int z)\<rparr>"
proof -
  from assms obtain a b c where p: "str_to_version s False = Inr (a, b, c)"
    and v: "v = \<lparr>features = instance_features feats, major = a, minor = b, patch = c\<rparr>"
    by (auto simp: Version_init_unfold split: sum.splits)
  from str_to_version_sound [OF p] obtain x y z e where
    "is_number x" "is_number y" "is_number z" "at_end e"
    "s = x @ ''.'' @ y @ ''.'' @ z @ e" "a = convert x" "b = convert y" "c = convert z"
    by (auto simp: is_comp_def)
  with v show ?thesis
    by (intro exI [of _ x] exI [of _ y] exI [of _ z] exI [of _ e]) (simp add: convert_number)
qed

lemma Version_init_rejects:
  "Version_init s feats = Inl (ValueError (invalid_version_msg s False)) \<or>
   (\<exists>v. Version_init s feats = Inr v)"
  using str_to_version_cases [of s False]
  by (auto simp: Version_init_unfold)

lemma str_int_nonneg: "0 \<le> i \<Longrightarrow> is_number (str_int i) \<and> py_int (str_int i) = i"
  by (simp add: str_int_def is_number_str_nat py_int_str_nat)

section \<open>Rendering and parsing\<close>

text \<open>
  Claim C2. For all non-negative integers \<open>M\<close>, \<open>N\<close>, \<open>P\<close>, the constructor accepts the
  string \<open>"M.N.P"\<close> written with Python's decimal rendering of the three integers, whatever
  the \<open>features\<close> argument; the instance holds \<open>(M, N, P)\<close> and \<open>str\<close> of it is the
  string it was built from.
\<close>

theorem roundtrip_str_Version:
  assumes "0 \<le> M" and "0 \<le> N" and "0 \<le> P"
  shows "\<exists>v. Version_init (str_int M @ ''.'' @ str_int N @ ''.'' @ str_int P) feats = Inr v \<and>
             tuple v = (Num M, Num N, Num P) \<and>
             Version_str v = str_int M @ ''.'' @ str_int N @ ''.'' @ str_int P"
  using assms Version_init_accepts [of "str_int M" "str_int N" "str_int P" "[]" feats]
  by (simp add: str_int_nonneg at_end_def tuple_def Version_str_def)

theorem roundtrip_str_Version_witness:
  "(0::int) \<le> 1 \<and> (0::int) \<le> 20 \<and> (0::int) \<le> 305 \<and>
   (\<exists>v. Version_init ''1.20.305'' None = Inr v \<and> tuple v = (Num 1, Num 20, Num 305) \<and>
        Version_str v = ''1.20.305'')"
  using roundtrip_str_Version [of 1 20 305 None]
  by (simp add: str_int_def str_nat.simps digit_char_def)

lemma version_format_last:
  assumes "version_format False s"
  shows "s \<noteq> [] \<and> is_digit (last s)"
proof -
  from assms obtain x y z where z: "is_number z" and s: "s = x @ ''.'' @ y @ ''.'' @ z"
    by (auto simp: version_format_def is_comp_def)
  from z have "z \<noteq> []" and "is_digit (last z)"
    by (auto simp: is_number_def list_all_iff)
  with s show ?thesis by simp
qed

lemma newline_not_format: "\<not> version_format False (t @ [CHR 0x0A])"
  using version_format_last [of "t @ [CHR 0x0A]"] by (auto simp: is_digit_def)

lemma version_format_accepted:
  assumes "version_format False s"
  shows "\<exists>v. Version_init s feats = Inr v"
proof -
  from assms obtain x y z where "is_number x" "is_number y" "is_number z"
    and "s = x @ ''.'' @ y @ ''.'' @ z"
    by (auto simp: version_format_def is_comp_def)
  then show ?thesis
    using Version_init_accepts [of x y z "[]" feats] by (simp add: at_end_def)
qed

lemma Version_init_rejects_outside:
  assumes "\<not> version_format False s"
    and "\<And>t. version_format False t \<Longrightarrow> s \<noteq> t @ [CHR 0x0A]"
  shows "Version_init s feats = Inl (ValueError (invalid_version_msg s False))"
proof (rule ccontr)
  assume "Version_init s feats \<noteq> Inl (ValueError (invalid_version_msg s False))"
  with Version_init_rejects [of s feats] obtain v where "Version_init s feats = Inr v"
    by auto
  from Version_init_sound [OF this] obtain x y z e where
    n: "is_number x" "is_number y" "is_number z" and e: "at_end e"
    and s: "s = x @ ''.'' @ y @ ''.'' @ z @ e"
    by blast
  from n have f: "version_format False (x @ ''.'' @ y @ ''.'' @ z)"
    by (auto simp: version_format_def is_comp_def)
  from e consider "e = []" | "e = [CHR 0x0A]" by (auto simp: at_end_def)
  then show False
  proof cases
    case 1
    with s f assms(1) show False by simp
  next
    case 2
    with s assms(2) [OF f] show False by simp
  qed
qed

lemma Version_init_spec_examples:
  "Version_init ''1.2'' feats = Inl (ValueError (invalid_version_msg ''1.2'' False))"
  "Version_init ''1.2.3.4'' feats = Inl (ValueError (invalid_version_msg ''1.2.3.4'' False))"
  "Version_init ''a.b.c'' feats = Inl (ValueError (invalid_version_msg ''a.b.c'' False))"
  "Version_init ''1.2.*'' feats = Inl (ValueError (invalid_version_msg ''1.2.*'' False))"
  by (simp_all add: Version_init_unfold str_to_version_def reg_match_def group_v_def
      digits_plus_def dot_lit_def at_end_def is_digit_def)

lemma invalid_version_msg_text:
  "invalid_version_msg ''1.2'' False =
     ''Invalid version '' @ [CHR 0x27] @ ''1.2'' @ [CHR 0x27] @
     ''. Format should be x.y.z with {x,y,z} being digits.''"
  by (simp add: invalid_version_msg_def quoted_def)

section \<open>What the constructor accepts\<close>

text \<open>
  Claim C4. The claim asks that every string outside the format \<open>digits.digits.digits\<close>,
  matched exactly, is refused. The string \<open>"1.2.3\n"\<close> is outside the format, and the
  constructor accepts it: \<open>$\<close> in the pattern also holds just before a final newline. The
  instance built is that of \<open>"1.2.3"\<close>.
\<close>

theorem Version_init_trailing_newline:
  "\<not> version_format False (''1.2.3'' @ [CHR 0x0A]) \<and>
   Version_init (''1.2.3'' @ [CHR 0x0A]) None =
     Inr \<lparr>features = DEFAULT_FEATURES, major = Num 1, minor = Num 2, patch = Num 3\<rparr>"
proof
  show "\<not> version_format False (''1.2.3'' @ [CHR 0x0A])"
    by (rule newline_not_format)
  show "Version_init (''1.2.3'' @ [CHR 0x0A]) None =
     Inr \<lparr>features = DEFAULT_FEATURES, major = Num 1, minor = Num 2, patch = Num 3\<rparr>"
    by (simp add: Version_init_def str_to_version_def reg_match_def group_v_def
        digits_plus_def dot_lit_def at_end_def is_digit_def convert_def py_int_def digit_val_def)
qed

lemma py_int_leading_zero: "py_int (''0'' @ x) = py_int x"
  by (simp add: py_int_def digit_val_def)

lemma is_number_leading_zero: "is_number x \<Longrightarrow> is_number (''0'' @ x)"
  by (simp add: is_number_def is_digit_def)

section \<open>Leading zeros\<close>

text \<open>
  Claim C10. The constructor accepts components written with leading zeros and stores their
  integer values: a zero put before the major component gives the same instance. For the
  accepted string \<open>"01.2.3"\<close>, \<open>str\<close> of the instance is \<open>"1.2.3"\<close>, which is not the string
  it was built from, and the instance is \<open>==\<close> to the instance of \<open>"1.2.3"\<close> and to the
  string \<open>"1.2.3"\<close>.
\<close>

theorem leading_zeros_normalised:
  assumes "is_number x" and "is_number y" and "is_number z"
  shows "(\<exists>v. Version_init (''0'' @ x @ ''.'' @ y @ ''.'' @ z) feats = Inr v \<and>
              Version_init (x @ ''.'' @ y @ ''.'' @ z) feats = Inr v \<and>
              tuple v = (Num (py_int x), Num (py_int y), Num (py_int z))) \<and>
         (\<exists>v w. Version_init ''01.2.3'' None = Inr v \<and> Version_str v = ''1.2.3'' \<and>
                Version_str v \<noteq> ''01.2.3'' \<and> Version_init ''1.2.3'' None = Inr w \<and>
                Version_eq v (PyVersion w) = Inr True \<and>
                Version_eq v (PyStr ''1.2.3'') = Inr True)"
proof
  from assms show "\<exists>v. Version_init (''0'' @ x @ ''.'' @ y @ ''.'' @ z) feats = Inr v \<and>
              Version_init (x @ ''.'' @ y @ ''.'' @ z) feats = Inr v \<and>
              tuple v = (Num (py_int x), Num (py_int y), Num (py_int z))"
    using Version_init_accepts [of x y z "[]" feats]
      Version_init_accepts [of "''0'' @ x" y z "[]" feats]
    by (simp add: at_end_def is_number_leading_zero py_int_leading_zero tuple_def
        del: append.simps)
next
  let ?v = "\<lparr>features = DEFAULT_FEATURES, major = Num 1, minor = Num 2, patch = Num 3\<rparr>"
  have a: "Version_init ''01.2.3'' None = Inr ?v"
    by (simp add: Version_init_def str_to_version_def reg_match_def group_v_def
        digits_plus_def dot_lit_def at_end_def is_digit_def convert_def py_int_def digit_val_def)
  have b: "Version_init ''1.2.3'' None = Inr ?v"
    by (simp add: Version_init_def str_to_version_def reg_match_def group_v_def
        digits_plus_def dot_lit_def at_end_def is_digit_def convert_def py_int_def digit_val_def)
  have c: "Version_str ?v = ''1.2.3''"
    by (simp add: Version_str_def str_int_def str_nat.simps digit_char_def)
  have d: "Version_eq ?v (PyVersion ?v) = Inr True"
    by (simp add: Version_eq_def validate_operand_def)
  have e: "Version_eq ?v (PyStr ''1.2.3'') = Inr True"
    by (simp add: Version_eq_def validate_operand_def b)
  from a b c d e
  show "\<exists>v w. Version_init ''01.2.3'' None = Inr v \<and> Version_str v = ''1.2.3'' \<and>
                Version_str v \<noteq> ''01.2.3'' \<and> Version_init ''1.2.3'' None = Inr w \<and>
                Version_eq v (PyVersion w) = Inr True \<and>
                Version_eq v (PyStr ''1.2.3'') = Inr True"
    by (intro exI [of _ ?v]) simp
qed

theorem leading_zeros_normalised_witness:
  "is_number ''07'' \<and> is_number ''2'' \<and> is_number ''3'' \<and>
   (\<exists>v. Version_init ''007.2.3'' None = Inr v \<and> Version_init ''07.2.3'' None = Inr v \<and>
        tuple v = (Num 7, Num 2, Num 3))"
proof -
  have n: "is_number ''07''" "is_number ''2''" "is_number ''3''"
    by (simp_all add: is_number_def is_digit_def)
  from leading_zeros_normalised [OF n, of None] n show ?thesis
    by (simp add: py_int_def digit_val_def)
qed

section \<open>What an instance holds\<close>

lemma call_same: "snd (call v c) = v"
  by (cases c) simp_all

lemma after_calls_same: "after_calls v cs = v"
  by (induction cs) (simp_all add: call_same)

text \<open>
  Claim C9. An instance the constructor returns holds three integers that are not negative, so
  none of \<open>major\<close>, \<open>minor\<close>, \<open>patch\<close> is the wildcard; and after any sequence of calls of
  \<open>implements\<close>, \<open>str\<close>, \<open>tuple\<close>, the six comparisons and \<open>match\<close> the three attributes
  are what they were.
\<close>

theorem Version_fields_invariant:
  assumes "Version_init s feats = Inr v"
  shows "(\<exists>a b c. 0 \<le> a \<and> 0 \<le> b \<and> 0 \<le> c \<and>
            major v = Num a \<and> minor v = Num b \<and> patch v = Num c) \<and>
         major v \<noteq> Wildcard \<and> minor v \<noteq> Wildcard \<and> patch v \<noteq> Wildcard \<and>
         (\<forall>cs. major (after_calls v cs) = major v \<and> minor (after_calls v cs) = minor v \<and>
               patch (after_calls v cs) = patch v)"
proof -
  from Version_init_sound [OF assms] obtain x y z where
    "is_number x" "is_number y" "is_number z"
    "major v = Num (py_int x)" "minor v = Num (py_int y)" "patch v = Num (py_int z)"
    by auto
  then show ?thesis
    by (auto simp: after_calls_same dest: is_number_nonneg)
qed

theorem Version_fields_invariant_witness:
  "Version_init ''1.20.3'' None =
     Inr \<lparr>features = DEFAULT_FEATURES, major = Num 1, minor = Num 20, patch = Num 3\<rparr> \<and>
   major (after_calls \<lparr>features = DEFAULT_FEATURES, major = Num 1, minor = Num 20, patch = Num 3\<rparr>
            [Call_match ''*.*.*'', Call_lt (PyStr ''2.0.0''), Call_str]) = Num 1"
proof -
  have a: "Version_init ''1.20.3'' None =
     Inr \<lparr>features = DEFAULT_FEATURES, major = Num 1, minor = Num 20, patch = Num 3\<rparr>"
    by (simp add: Version_init_def str_to_version_def reg_match_def group_v_def
        digits_plus_def dot_lit_def at_end_def is_digit_def convert_def py_int_def digit_val_def)
  from Version_fields_invariant [OF a] a show ?thesis by simp
qed

section \<open>Ordering\<close>

lemma Version_init_fields:
  assumes "Version_init s feats = Inr v"
  shows "\<exists>a b c. major v = Num a \<and> minor v = Num b \<and> patch v = Num c"
  using Version_init_sound [OF assms] by auto

lemma Version_init_parsed_fields:
  assumes "Version_init (x @ ''.'' @ y @ ''.'' @ z) feats = Inr v"
    and "is_number x" and "is_number y" and "is_number z"
  shows "major v = Num (py_int x) \<and> minor v = Num (py_int y) \<and> patch v = Num (py_int z)"
  using assms Version_init_accepts [of x y z "[]" feats] by (auto simp: at_end_def)

lemma lex_less_trichotomy:
  "(lex_less t u \<and> t \<noteq> u \<and> \<not> lex_less u t) \<or>
   (\<not> lex_less t u \<and> t = u \<and> \<not> lex_less u t) \<or>
   (\<not> lex_less t u \<and> t \<noteq> u \<and> lex_less u t)"
  by (cases t; cases u) (auto simp: lex_less_def)

lemma lex_less_trans: "lex_less t u \<Longrightarrow> lex_less u w \<Longrightarrow> lex_less t w"
  by (cases t; cases u; cases w) (auto simp: lex_less_def)

text \<open>
  Claim C1. Let \<open>va\<close>, \<open>vb\<close>, \<open>vc\<close> be built from accepted strings. The attributes
  \<open>major\<close>, \<open>minor\<close>, \<open>patch\<close> of each are integers, and \<open><\<close>, \<open>==\<close>, \<open>>\<close>,
  \<open>!=\<close>, \<open><=\<close>, \<open>>=\<close> on \<open>va\<close> and \<open>vb\<close> never raise and are the lexicographic
  comparison of \<open>(major, minor, patch)\<close> of \<open>va\<close> with that of \<open>vb\<close>: major first, on a tie
  minor, on a tie patch. Exactly one of \<open>va < vb\<close>, \<open>va == vb\<close>, \<open>va > vb\<close> is true, and
  \<open><\<close> is transitive. When the two strings are \<open>x1.x2.x3\<close> and \<open>y1.y2.y3\<close>, the
  comparison is that of the integer values of their components.
\<close>

theorem Version_total_order:
  assumes "Version_init sa fa = Inr va" and "Version_init sb fb = Inr vb"
    and "Version_init sc fc = Inr vc"
  shows "(\<exists>a1 a2 a3 b1 b2 b3.
            major va = Num a1 \<and> minor va = Num a2 \<and> patch va = Num a3 \<and>
            major vb = Num b1 \<and> minor vb = Num b2 \<and> patch vb = Num b3 \<and>
            tuple va = (Num a1, Num a2, Num a3) \<and> tuple vb = (Num b1, Num b2, Num b3) \<and>
            Version_lt va (PyVersion vb) = Inr (lex_less (a1, a2, a3) (b1, b2, b3)) \<and>
            Version_eq va (PyVersion vb) = Inr (a1 = b1 \<and> a2 = b2 \<and> a3 = b3) \<and>
            Version_gt va (PyVersion vb) = Inr (lex_less (b1, b2, b3) (a1, a2, a3)) \<and>
            Version_ne va (PyVersion vb) = Inr (\<not> (a1 = b1 \<and> a2 = b2 \<and> a3 = b3)) \<and>
            Version_le va (PyVersion vb) = Inr (\<not> lex_less (b1, b2, b3) (a1, a2, a3)) \<and>
            Version_ge va (PyVersion vb) = Inr (\<not> lex_less (a1, a2, a3) (b1, b2, b3))) \<and>
         ((Version_lt va (PyVersion vb) = Inr True \<and> Version_eq va (PyVersion vb) = Inr False \<and>
           Version_gt va (PyVersion vb) = Inr False) \<or>
          (Version_lt va (PyVersion vb) = Inr False \<and> Version_eq va (PyVersion vb) = Inr True \<and>
           Version_gt va (PyVersion vb) = Inr False) \<or>
          (Version_lt va (PyVersion vb) = Inr False \<and> Version_eq va (PyVersion vb) = Inr False \<and>
           Version_gt va (PyVersion vb) = Inr True)) \<and>
         (Version_lt va (PyVersion vb) = Inr True \<and> Version_lt vb (PyVersion vc) = Inr True \<longrightarrow>
            Version_lt va (PyVersion vc) = Inr True) \<and>
         (\<forall>x1 x2 x3 y1 y2 y3.
            is_number x1 \<and> is_number x2 \<and> is_number x3 \<and>
            is_number y1 \<and> is_number y2 \<and> is_number y3 \<and>
            sa = x1 @ ''.'' @ x2 @ ''.'' @ x3 \<and> sb = y1 @ ''.'' @ y2 @ ''.'' @ y3 \<longrightarrow>
            Version_lt va (PyVersion vb) =
              Inr (lex_less (py_int x1, py_int x2, py_int x3) (py_int y1, py_int y2, py_int y3)) \<and>
            Version_eq va (PyVersion vb) =
              Inr (py_int x1 = py_int y1 \<and> py_int x2 = py_int y2 \<and> py_int x3 = py_int y3) \<and>
            Version_gt va (PyVersion vb) =
              Inr (lex_less (py_int y1, py_int y2, py_int y3) (py_int x1, py_int x2, py_int x3)))"
proof -
  from Version_init_fields [OF assms(1)] obtain a1 a2 a3 where
    a: "major va = Num a1" "minor va = Num a2" "patch va = Num a3" by blast
  from Version_init_fields [OF assms(2)] obtain b1 b2 b3 where
    b: "major vb = Num b1" "minor vb = Num b2" "patch vb = Num b3" by blast
  from Version_init_fields [OF assms(3)] obtain c1 c2 c3 where
    c: "major vc = Num c1" "minor vc = Num c2" "patch vc = Num c3" by blast
  have cmp: "Version_lt v (PyVersion w) = Inr (lex_less (p1, p2, p3) (q1, q2, q3)) \<and>
      Version_eq v (PyVersion w) = Inr (p1 = q1 \<and> p2 = q2 \<and> p3 = q3) \<and>
      Version_gt v (PyVersion w) = Inr (lex_less (q1, q2, q3) (p1, p2, p3)) \<and>
      Version_ne v (PyVersion w) = Inr (\<not> (p1 = q1 \<and> p2 = q2 \<and> p3 = q3)) \<and>
      Version_le v (PyVersion w) = Inr (\<not> lex_less (q1, q2, q3) (p1, p2, p3)) \<and>
      Version_ge v (PyVersion w) = Inr (\<not> lex_less (p1, p2, p3) (q1, q2, q3))"
    if v: "major v = Num p1" "minor v = Num p2" "patch v = Num p3"
      and w: "major w = Num q1" "minor w = Num q2" "patch w = Num q3"
    for v w p1 p2 p3 q1 q2 q3
  proof -
    have t: "tuple v = (Num p1, Num p2, Num p3)" "tuple w = (Num q1, Num q2, Num q3)"
      using v w by (simp_all add: tuple_def)
    have lt: "Version_lt v (PyVersion w) = Inr (lex_less (p1, p2, p3) (q1, q2, q3))"
      by (auto simp: Version_lt_def validate_operand_def t tuple_lt_def lex_less_def)
    have eq: "Version_eq v (PyVersion w) = Inr (p1 = q1 \<and> p2 = q2 \<and> p3 = q3)"
      by (simp add: Version_eq_def validate_operand_def t)
    have ne: "Version_ne v (PyVersion w) = Inr (\<not> (p1 = q1 \<and> p2 = q2 \<and> p3 = q3))"
      by (simp add: Version_ne_def eq)
    have le: "Version_le v (PyVersion w) = Inr (\<not> lex_less (q1, q2, q3) (p1, p2, p3))"
      using lex_less_trichotomy [of "(p1, p2, p3)" "(q1, q2, q3)"]
      unfolding Version_le_def lt eq by auto
    have gt: "Version_gt v (PyVersion w) = Inr (lex_less (q1, q2, q3) (p1, p2, p3))"
      using lex_less_trichotomy [of "(p1, p2, p3)" "(q1, q2, q3)"]
      unfolding Version_gt_def lt ne by auto
    have ge: "Version_ge v (PyVersion w) = Inr (\<not> lex_less (p1, p2, p3) (q1, q2, q3))"
      by (simp add: Version_ge_def lt)
    show ?thesis by (intro conjI lt eq gt ne le ge)
  qed
  have ab_all: "Version_lt va (PyVersion vb) = Inr (lex_less (a1, a2, a3) (b1, b2, b3)) \<and>
      Version_eq va (PyVersion vb) = Inr (a1 = b1 \<and> a2 = b2 \<and> a3 = b3) \<and>
      Version_gt va (PyVersion vb) = Inr (lex_less (b1, b2, b3) (a1, a2, a3)) \<and>
      Version_ne va (PyVersion vb) = Inr (\<not> (a1 = b1 \<and> a2 = b2 \<and> a3 = b3)) \<and>
      Version_le va (PyVersion vb) = Inr (\<not> lex_less (b1, b2, b3) (a1, a2, a3)) \<and>
      Version_ge va (PyVersion vb) = Inr (\<not> lex_less (a1, a2, a3) (b1, b2, b3))"
    by (rule cmp [OF a b])
  have ab: "Version_lt va (PyVersion vb) = Inr (lex_less (a1, a2, a3) (b1, b2, b3))"
    "Version_eq va (PyVersion vb) = Inr (a1 = b1 \<and> a2 = b2 \<and> a3 = b3)"
    "Version_gt va (PyVersion vb) = Inr (lex_less (b1, b2, b3) (a1, a2, a3))"
    using ab_all by simp_all
  have first: "\<exists>a1 a2 a3 b1 b2 b3.
            major va = Num a1 \<and> minor va = Num a2 \<and> patch va = Num a3 \<and>
            major vb = Num b1 \<and> minor vb = Num b2 \<and> patch vb = Num b3 \<and>
            tuple va = (Num a1, Num a2, Num a3) \<and> tuple vb = (Num b1, Num b2, Num b3) \<and>
            Version_lt va (PyVersion vb) = Inr (lex_less (a1, a2, a3) (b1, b2, b3)) \<and>
            Version_eq va (PyVersion vb) = Inr (a1 = b1 \<and> a2 = b2 \<and> a3 = b3) \<and>
            Version_gt va (PyVersion vb) = Inr (lex_less (b1, b2, b3) (a1, a2, a3)) \<and>
            Version_ne va (PyVersion vb) = Inr (\<not> (a1 = b1 \<and> a2 = b2 \<and> a3 = b3)) \<and>
            Version_le va (PyVersion vb) = Inr (\<not> lex_less (b1, b2, b3) (a1, a2, a3)) \<and>
            Version_ge va (PyVersion vb) = Inr (\<not> lex_less (a1, a2, a3) (b1, b2, b3))"
    using a b ab_all
    by (intro exI [of _ a1] exI [of _ a2] exI [of _ a3] exI [of _ b1] exI [of _ b2]
        exI [of _ b3]) (simp add: tuple_def)
  have second: "(Version_lt va (PyVersion vb) = Inr True \<and> Version_eq va (PyVersion vb) = Inr False \<and>
           Version_gt va (PyVersion vb) = Inr False) \<or>
          (Version_lt va (PyVersion vb) = Inr False \<and> Version_eq va (PyVersion vb) = Inr True \<and>
           Version_gt va (PyVersion vb) = Inr False) \<or>
          (Version_lt va (PyVersion vb) = Inr False \<and> Version_eq va (PyVersion vb) = Inr False \<and>
           Version_gt va (PyVersion vb) = Inr True)"
    using lex_less_trichotomy [of "(a1, a2, a3)" "(b1, b2, b3)"]
    by (simp only: ab sum.inject) (auto simp: lex_less_def)
  have third: "Version_lt va (PyVersion vb) = Inr True \<and> Version_lt vb (PyVersion vc) = Inr True \<longrightarrow>
            Version_lt va (PyVersion vc) = Inr True"
    using lex_less_trans [of "(a1, a2, a3)" "(b1, b2, b3)" "(c1, c2, c3)"]
    by (simp add: ab(1) cmp [OF b c, THEN conjunct1] cmp [OF a c, THEN conjunct1])
  have fourth: "\<forall>x1 x2 x3 y1 y2 y3.
            is_number x1 \<and> is_number x2 \<and> is_number x3 \<and>
            is_number y1 \<and> is_number y2 \<and> is_number y3 \<and>
            sa = x1 @ ''.'' @ x2 @ ''.'' @ x3 \<and> sb = y1 @ ''.'' @ y2 @ ''.'' @ y3 \<longrightarrow>
            Version_lt va (PyVersion vb) =
              Inr (lex_less (py_int x1, py_int x2, py_int x3) (py_int y1, py_int y2, py_int y3)) \<and>
            Version_eq va (PyVersion vb) =
              Inr (py_int x1 = py_int y1 \<and> py_int x2 = py_int y2 \<and> py_int x3 = py_int y3) \<and>
            Version_gt va (PyVersion vb) =
              Inr (lex_less (py_int y1, py_int y2, py_int y3) (py_int x1, py_int x2, py_int x3))"
  proof (intro allI impI, elim conjE)
    fix x1 x2 x3 y1 y2 y3
    assume n: "is_number x1" "is_number x2" "is_number x3"
      "is_number y1" "is_number y2" "is_number y3"
      and s: "sa = x1 @ ''.'' @ x2 @ ''.'' @ x3" "sb = y1 @ ''.'' @ y2 @ ''.'' @ y3"
    from assms(1) have "Version_init (x1 @ ''.'' @ x2 @ ''.'' @ x3) fa = Inr va"
      by (simp only: s)
    from Version_init_parsed_fields [OF this n(1-3)]
    have x: "major va = Num (py_int x1)" "minor va = Num (py_int x2)" "patch va = Num (py_int x3)"
      by simp_all
    from assms(2) have "Version_init (y1 @ ''.'' @ y2 @ ''.'' @ y3) fb = Inr vb"
      by (simp only: s)
    from Version_init_parsed_fields [OF this n(4-6)]
    have y: "major vb = Num (py_int y1)" "minor vb = Num (py_int y2)" "patch vb = Num (py_int y3)"
      by simp_all
    note r = cmp [OF x y]
    from r [THEN conjunct1] r [THEN conjunct2, THEN conjunct1]
      r [THEN conjunct2, THEN conjunct2, THEN conjunct1]
    show "Version_lt va (PyVersion vb) =
              Inr (lex_less (py_int x1, py_int x2, py_int x3) (py_int y1, py_int y2, py_int y3)) \<and>
            Version_eq va (PyVersion vb) =
              Inr (py_int x1 = py_int y1 \<and> py_int x2 = py_int y2 \<and> py_int x3 = py_int y3) \<and>
            Version_gt va (PyVersion vb) =
              Inr (lex_less (py_int y1, py_int y2, py_int y3) (py_int x1, py_int x2, py_int x3))"
      by (intro conjI)
  qed
  show ?thesis
    by (rule conjI [OF first conjI [OF second conjI [OF third fourth]]])
qed

theorem Version_total_order_witness:
  "Version_init ''1.2.3'' None =
     Inr \<lparr>features = DEFAULT_FEATURES, major = Num 1, minor = Num 2, patch = Num 3\<rparr> \<and>
   Version_init ''1.2.10'' None =
     Inr \<lparr>features = DEFAULT_FEATURES, major = Num 1, minor = Num 2, patch = Num 10\<rparr> \<and>
   Version_init ''2.0.0'' None =
     Inr \<lparr>features = DEFAULT_FEATURES, major = Num 2, minor = Num 0, patch = Num 0\<rparr> \<and>
   is_number ''1'' \<and> is_number ''2'' \<and> is_number ''3'' \<and> is_number ''10'' \<and>
   Version_lt \<lparr>features = DEFAULT_FEATURES, major = Num 1, minor = Num 2, patch = Num 3\<rparr>
     (PyVersion \<lparr>features = DEFAULT_FEATURES, major = Num 1, minor = Num 2, patch = Num 10\<rparr>) =
     Inr True \<and>
   Version_eq \<lparr>features = DEFAULT_FEATURES, major = Num 1, minor = Num 2, patch = Num 3\<rparr>
     (PyVersion \<lparr>features = DEFAULT_FEATURES, major = Num 1, minor = Num 2, patch = Num 10\<rparr>) =
     Inr False \<and>
   Version_gt \<lparr>features = DEFAULT_FEATURES, major = Num 1, minor = Num 2, patch = Num 3\<rparr>
     (PyVersion \<lparr>features = DEFAULT_FEATURES, major = Num 1, minor = Num 2, patch = Num 10\<rparr>) =
     Inr False \<and>
   Version_lt \<lparr>features = DEFAULT_FEATURES, major = Num 1, minor = Num 2, patch = Num 10\<rparr>
     (PyVersion \<lparr>features = DEFAULT_FEATURES, major = Num 2, minor = Num 0, patch = Num 0\<rparr>) =
     Inr True \<and>
   Version_lt \<lparr>features = DEFAULT_FEATURES, major = Num 1, minor = Num 2, patch = Num 3\<rparr>
     (PyVersion \<lparr>features = DEFAULT_FEATURES, major = Num 2, minor = Num 0, patch = Num 0\<rparr>) =
     Inr True"
proof -
  let ?a = "\<lparr>features = DEFAULT_FEATURES, major = Num 1, minor = Num 2, patch = Num 3\<rparr>"
  let ?b = "\<lparr>features = DEFAULT_FEATURES, major = Num 1, minor = Num 2, patch = Num 10\<rparr>"
  let ?c = "\<lparr>features = DEFAULT_FEATURES, major = Num 2, minor = Num 0, patch = Num 0\<rparr>"
  have a: "Version_init ''1.2.3'' None = Inr ?a"
    and b: "Version_init ''1.2.10'' None = Inr ?b"
    and c: "Version_init ''2.0.0'' None = Inr ?c"
    by (simp_all add: Version_init_def str_to_version_def reg_match_def group_v_def
        digits_plus_def dot_lit_def at_end_def is_digit_def convert_def py_int_def digit_val_def)
  have n: "is_number ''1''" "is_number ''2''" "is_number ''3''" "is_number ''10''"
    by (simp_all add: is_number_def is_digit_def)
  have p: "py_int ''1'' = 1" "py_int ''2'' = 2" "py_int ''3'' = 3" "py_int ''10'' = 10"
    by (simp_all add: py_int_def digit_val_def)
  have sa: "''1.2.3'' = ''1'' @ ''.'' @ ''2'' @ ''.'' @ ''3''"
    and sb: "''1.2.10'' = ''1'' @ ''.'' @ ''2'' @ ''.'' @ ''10''"
    by simp_all
  note t = Version_total_order [OF a b c]
  note strings = t [THEN conjunct2, THEN conjunct2, THEN conjunct2, rule_format,
      of "''1''" "''2''" "''3''" "''1''" "''2''" "''10''"]
  have "Version_lt ?a (PyVersion ?b) =
          Inr (lex_less (py_int ''1'', py_int ''2'', py_int ''3'')
                 (py_int ''1'', py_int ''2'', py_int ''10'')) \<and>
        Version_eq ?a (PyVersion ?b) =
          Inr (py_int ''1'' = py_int ''1'' \<and> py_int ''2'' = py_int ''2'' \<and>
               py_int ''3'' = py_int ''10'') \<and>
        Version_gt ?a (PyVersion ?b) =
          Inr (lex_less (py_int ''1'', py_int ''2'', py_int ''10'')
                 (py_int ''1'', py_int ''2'', py_int ''3''))"
    by (rule strings) (intro conjI n sa sb)
  then have ab: "Version_lt ?a (PyVersion ?b) = Inr True"
    "Version_eq ?a (PyVersion ?b) = Inr False" "Version_gt ?a (PyVersion ?b) = Inr False"
    by (simp_all add: p lex_less_def)
  have "Version_lt ?a (PyVersion ?b) = Inr True" and "Version_eq ?a (PyVersion ?b) = Inr False"
    and "Version_gt ?a (PyVersion ?b) = Inr False"
    and bc: "Version_lt ?b (PyVersion ?c) = Inr True"
    by (simp_all add: Version_lt_def Version_eq_def Version_gt_def Version_ne_def
        validate_operand_def tuple_lt_def tuple_def)
  have ac: "Version_lt ?a (PyVersion ?c) = Inr True"
    by (rule t [THEN conjunct2, THEN conjunct2, THEN conjunct1, rule_format])
      (intro conjI ab(1) bc)
  from a b c n ab bc ac show ?thesis by (intro conjI)
qed

section \<open>Wildcard matching\<close>

lemma Version_match_parsed:
  assumes "str_to_version s True = Inr (a, b, c)"
  shows "Version_match v s =
           Inr ((a = Wildcard \<or> a = major v) \<and> (b = Wildcard \<or> b = minor v) \<and>
                (c = Wildcard \<or> c = patch v))"
  using assms by (auto simp: Version_match_def)

lemma convert_comp:
  assumes "is_comp True x"
  shows "(convert x = Wildcard \<or> convert x = Num m) \<longleftrightarrow> (x = ''*'' \<or> Num m = Num (py_int x))"
  using assms by (auto simp: is_comp_def convert_number convert_star)

text \<open>
  Claim C3. Let \<open>v\<close> be a constructed instance; its three attributes are integers. For every
  string the wildcard pattern accepts, \<open>v.match(s)\<close> returns, without raising, whether each of
  the three parsed components is the wildcard or equal to the attribute of \<open>v\<close> in the same
  position. In particular, for components \<open>x\<close>, \<open>y\<close>, \<open>z\<close> that are each digits or \<open>*\<close>,
  \<open>v.match("x.y.z")\<close> is true exactly when each of them is \<open>*\<close> or has the integer value of
  the attribute.
\<close>

theorem Version_match_iff:
  assumes "Version_init vs feats = Inr v"
  shows "(\<exists>m n p. major v = Num m \<and> minor v = Num n \<and> patch v = Num p) \<and>
         (\<forall>a b c. str_to_version s True = Inr (a, b, c) \<longrightarrow>
            Version_match v s =
              Inr ((a = Wildcard \<or> a = major v) \<and> (b = Wildcard \<or> b = minor v) \<and>
                   (c = Wildcard \<or> c = patch v))) \<and>
         (\<forall>x y z. is_comp True x \<and> is_comp True y \<and> is_comp True z \<longrightarrow>
            Version_match v (x @ ''.'' @ y @ ''.'' @ z) =
              Inr ((x = ''*'' \<or> major v = Num (py_int x)) \<and>
                   (y = ''*'' \<or> minor v = Num (py_int y)) \<and>
                   (z = ''*'' \<or> patch v = Num (py_int z))))"
proof -
  from Version_init_sound [OF assms] obtain m n p where
    v: "major v = Num m" "minor v = Num n" "patch v = Num p"
    by auto
  have "Version_match v (x @ ''.'' @ y @ ''.'' @ z) =
              Inr ((x = ''*'' \<or> major v = Num (py_int x)) \<and>
                   (y = ''*'' \<or> minor v = Num (py_int y)) \<and>
                   (z = ''*'' \<or> patch v = Num (py_int z)))"
    if c: "is_comp True x" "is_comp True y" "is_comp True z" for x y z
  proof -
    have "str_to_version (x @ ''.'' @ y @ ''.'' @ z @ []) True =
            Inr (convert x, convert y, convert z)"
      by (rule str_to_version_complete) (simp_all add: c at_end_def)
    then have p: "str_to_version (x @ ''.'' @ y @ ''.'' @ z) True =
            Inr (convert x, convert y, convert z)"
      by simp
    show ?thesis
      unfolding Version_match_parsed [OF p] v
      using convert_comp [OF c(1), of m] convert_comp [OF c(2), of n] convert_comp [OF c(3), of p]
      by auto
  qed
  with v show ?thesis
    by (simp add: Version_match_parsed)
qed

theorem Version_match_iff_witness:
  "Version_init ''1.2.3'' None =
     Inr \<lparr>features = DEFAULT_FEATURES, major = Num 1, minor = Num 2, patch = Num 3\<rparr> \<and>
   str_to_version ''1.3.*'' True = Inr (Num 1, Num 3, Wildcard) \<and>
   is_comp True ''1'' \<and> is_comp True ''2'' \<and> is_comp True ''*'' \<and>
   Version_match \<lparr>features = DEFAULT_FEATURES, major = Num 1, minor = Num 2, patch = Num 3\<rparr>
     ''1.3.*'' = Inr False \<and>
   Version_match \<lparr>features = DEFAULT_FEATURES, major = Num 1, minor = Num 2, patch = Num 3\<rparr>
     ''1.2.*'' = Inr True"
proof -
  have a: "Version_init ''1.2.3'' None =
     Inr \<lparr>features = DEFAULT_FEATURES, major = Num 1, minor = Num 2, patch = Num 3\<rparr>"
    by (simp add: Version_init_def str_to_version_def reg_match_def group_v_def
        digits_plus_def dot_lit_def at_end_def is_digit_def convert_def py_int_def digit_val_def)
  have b: "str_to_version ''1.3.*'' True = Inr (Num 1, Num 3, Wildcard)"
    by (simp add: str_to_version_def reg_match_def group_v_def star_lit_def
        digits_plus_def dot_lit_def at_end_def is_digit_def convert_def py_int_def digit_val_def)
  have c: "is_comp True ''1''" "is_comp True ''2''" "is_comp True ''*''"
    by (simp_all add: is_comp_def is_number_def is_digit_def)
  from Version_match_iff [OF a, of "''1.3.*''"] b
  have d: "Version_match \<lparr>features = DEFAULT_FEATURES, major = Num 1, minor = Num 2, patch = Num 3\<rparr>
     ''1.3.*'' = Inr False"
    by simp
  from Version_match_iff [OF a, of "''1.3.*''"] c
  have "Version_match \<lparr>features = DEFAULT_FEATURES, major = Num 1, minor = Num 2, patch = Num 3\<rparr>
     (''1'' @ ''.'' @ ''2'' @ ''.'' @ ''*'') = Inr True"
    by (simp add: py_int_def digit_val_def del: append.simps)
  with a b c d show ?thesis by simp
qed

lemma Version_match_spec_examples:
  "Version_match \<lparr>features = DEFAULT_FEATURES, major = Num 1, minor = Num 2, patch = Num 3\<rparr>
     ''1.2.3'' = Inr True"
  "Version_match \<lparr>features = DEFAULT_FEATURES, major = Num 1, minor = Num 2, patch = Num 3\<rparr>
     ''1.2.*'' = Inr True"
  "Version_match \<lparr>features = DEFAULT_FEATURES, major = Num 1, minor = Num 2, patch = Num 3\<rparr>
     ''1.3.*'' = Inr False"
  "Version_match \<lparr>features = DEFAULT_FEATURES, major = Num 1, minor = Num 2, patch = Num 3\<rparr>
     ''*.*.*'' = Inr True"
  by (simp_all add: Version_match_def str_to_version_def reg_match_def group_v_def star_lit_def
      digits_plus_def dot_lit_def at_end_def is_digit_def convert_def py_int_def digit_val_def)

section \<open>Comparison with other objects\<close>

lemma validate_operand_str: "validate_operand v (PyStr s) = Version_init s None"
  by (simp add: validate_operand_def)

lemma validate_operand_Version: "validate_operand v (PyVersion w) = Inr w"
  by (simp add: validate_operand_def)

lemma validate_operand_other:
  assumes "\<not> isinstance_str other" and "\<not> isinstance_Version other"
  shows "validate_operand v other = Inl (AssertionError (cannot_compare_msg other))"
  using assms by (cases other) (simp_all add: validate_operand_def)

lemma compare_raises:
  assumes "validate_operand v other = Inl e"
  shows "Version_eq v other = Inl e" and "Version_ne v other = Inl e"
    and "Version_lt v other = Inl e" and "Version_le v other = Inl e"
    and "Version_gt v other = Inl e" and "Version_ge v other = Inl e"
  using assms
  by (simp_all add: Version_eq_def Version_ne_def Version_lt_def Version_le_def Version_gt_def
      Version_ge_def)

lemma compare_validated:
  assumes "validate_operand v other = Inr w"
  shows "Version_eq v other = Version_eq v (PyVersion w)"
    and "Version_ne v other = Version_ne v (PyVersion w)"
    and "Version_lt v other = Version_lt v (PyVersion w)"
    and "Version_le v other = Version_le v (PyVersion w)"
    and "Version_gt v other = Version_gt v (PyVersion w)"
    and "Version_ge v other = Version_ge v (PyVersion w)"
proof -
  show eq: "Version_eq v other = Version_eq v (PyVersion w)"
    using assms by (simp add: Version_eq_def validate_operand_Version)
  show lt: "Version_lt v other = Version_lt v (PyVersion w)"
    using assms by (simp add: Version_lt_def validate_operand_Version)
  show ne: "Version_ne v other = Version_ne v (PyVersion w)"
    by (simp only: Version_ne_def eq)
  show "Version_le v other = Version_le v (PyVersion w)"
    by (simp only: Version_le_def eq lt)
  show "Version_gt v other = Version_gt v (PyVersion w)"
    by (simp only: Version_gt_def ne lt)
  show "Version_ge v other = Version_ge v (PyVersion w)"
    by (simp only: Version_ge_def lt)
qed

text \<open>
  Claim C5. For a string operand \<open>s\<close>, each of the six comparisons first builds
  \<open>Version(s)\<close>, with no wildcard allowed. When that succeeds with \<open>w\<close>, the comparison is the
  comparison with \<open>w\<close>: for an instance holding the integers \<open>(a1, a2, a3)\<close> the result is
  the lexicographic comparison of \<open>(a1, a2, a3)\<close> with the three integers \<open>w\<close> holds, which
  for \<open>s = "x.y.z"\<close> are the integer values of \<open>x\<close>, \<open>y\<close>, \<open>z\<close>. When it fails, the
  comparison raises the parser's \<open>ValueError\<close>. \<open>Version("1.0.0") == "1.0.0"\<close> and
  \<open>Version("1.0.1") > "1.0.0"\<close> are true.
\<close>

theorem compare_with_string:
  "(\<forall>w. Version_init s None = Inr w \<longrightarrow>
      Version_eq v (PyStr s) = Version_eq v (PyVersion w) \<and>
      Version_ne v (PyStr s) = Version_ne v (PyVersion w) \<and>
      Version_lt v (PyStr s) = Version_lt v (PyVersion w) \<and>
      Version_le v (PyStr s) = Version_le v (PyVersion w) \<and>
      Version_gt v (PyStr s) = Version_gt v (PyVersion w) \<and>
      Version_ge v (PyStr s) = Version_ge v (PyVersion w)) \<and>
   (\<forall>a1 a2 a3 w.
      major v = Num a1 \<and> minor v = Num a2 \<and> patch v = Num a3 \<and>
      Version_init s None = Inr w \<longrightarrow>
      (\<exists>b1 b2 b3. major w = Num b1 \<and> minor w = Num b2 \<and> patch w = Num b3 \<and>
         Version_eq v (PyStr s) = Inr (a1 = b1 \<and> a2 = b2 \<and> a3 = b3) \<and>
         Version_ne v (PyStr s) = Inr (\<not> (a1 = b1 \<and> a2 = b2 \<and> a3 = b3)) \<and>
         Version_lt v (PyStr s) = Inr (lex_less (a1, a2, a3) (b1, b2, b3)) \<and>
         Version_le v (PyStr s) = Inr (\<not> lex_less (b1, b2, b3) (a1, a2, a3)) \<and>
         Version_gt v (PyStr s) = Inr (lex_less (b1, b2, b3) (a1, a2, a3)) \<and>
         Version_ge v (PyStr s) = Inr (\<not> lex_less (a1, a2, a3) (b1, b2, b3)))) \<and>
   (\<forall>a1 a2 a3 x y z.
      major v = Num a1 \<and> minor v = Num a2 \<and> patch v = Num a3 \<and>
      is_number x \<and> is_number y \<and> is_number z \<and> s = x @ ''.'' @ y @ ''.'' @ z \<longrightarrow>
      Version_eq v (PyStr s) = Inr (a1 = py_int x \<and> a2 = py_int y \<and> a3 = py_int z) \<and>
      Version_ne v (PyStr s) = Inr (\<not> (a1 = py_int x \<and> a2 = py_int y \<and> a3 = py_int z)) \<and>
      Version_lt v (PyStr s) = Inr (lex_less (a1, a2, a3) (py_int x, py_int y, py_int z)) \<and>
      Version_le v (PyStr s) = Inr (\<not> lex_less (py_int x, py_int y, py_int z) (a1, a2, a3)) \<and>
      Version_gt v (PyStr s) = Inr (lex_less (py_int x, py_int y, py_int z) (a1, a2, a3)) \<and>
      Version_ge v (PyStr s) = Inr (\<not> lex_less (a1, a2, a3) (py_int x, py_int y, py_int z))) \<and>
   (\<forall>e. Version_init s None = Inl e \<longrightarrow>
      e = ValueError (invalid_version_msg s False) \<and>
      Version_eq v (PyStr s) = Inl e \<and> Version_ne v (PyStr s) = Inl e \<and>
      Version_lt v (PyStr s) = Inl e \<and> Version_le v (PyStr s) = Inl e \<and>
      Version_gt v (PyStr s) = Inl e \<and> Version_ge v (PyStr s) = Inl e) \<and>
   (\<exists>a. Version_init ''1.0.0'' None = Inr a \<and> Version_eq a (PyStr ''1.0.0'') = Inr True) \<and>
   (\<exists>b. Version_init ''1.0.1'' None = Inr b \<and> Version_gt b (PyStr ''1.0.0'') = Inr True)"
proof -
  have cmp: "Version_eq v (PyStr s) = Inr (a1 = b1 \<and> a2 = b2 \<and> a3 = b3) \<and>
      Version_ne v (PyStr s) = Inr (\<not> (a1 = b1 \<and> a2 = b2 \<and> a3 = b3)) \<and>
      Version_lt v (PyStr s) = Inr (lex_less (a1, a2, a3) (b1, b2, b3)) \<and>
      Version_le v (PyStr s) = Inr (\<not> lex_less (b1, b2, b3) (a1, a2, a3)) \<and>
      Version_gt v (PyStr s) = Inr (lex_less (b1, b2, b3) (a1, a2, a3)) \<and>
      Version_ge v (PyStr s) = Inr (\<not> lex_less (a1, a2, a3) (b1, b2, b3))"
    if v: "major v = Num a1" "minor v = Num a2" "patch v = Num a3"
      and w: "Version_init s None = Inr w"
      and f: "major w = Num b1" "minor w = Num b2" "patch w = Num b3"
    for a1 a2 a3 b1 b2 b3 w
  proof -
    have val: "validate_operand v (PyStr s) = Inr w"
      by (simp add: validate_operand_def w)
    have t: "tuple v = (Num a1, Num a2, Num a3)" "tuple w = (Num b1, Num b2, Num b3)"
      using v f by (simp_all add: tuple_def)
    have lt: "Version_lt v (PyStr s) = Inr (lex_less (a1, a2, a3) (b1, b2, b3))"
      by (auto simp: Version_lt_def val t tuple_lt_def lex_less_def)
    have eq: "Version_eq v (PyStr s) = Inr (a1 = b1 \<and> a2 = b2 \<and> a3 = b3)"
      by (simp add: Version_eq_def val t)
    have ne: "Version_ne v (PyStr s) = Inr (\<not> (a1 = b1 \<and> a2 = b2 \<and> a3 = b3))"
      by (simp add: Version_ne_def eq)
    have le: "Version_le v (PyStr s) = Inr (\<not> lex_less (b1, b2, b3) (a1, a2, a3))"
      using lex_less_trichotomy [of "(a1, a2, a3)" "(b1, b2, b3)"]
      unfolding Version_le_def lt eq by auto
    have gt: "Version_gt v (PyStr s) = Inr (lex_less (b1, b2, b3) (a1, a2, a3))"
      using lex_less_trichotomy [of "(a1, a2, a3)" "(b1, b2, b3)"]
      unfolding Version_gt_def lt ne by auto
    have ge: "Version_ge v (PyStr s) = Inr (\<not> lex_less (a1, a2, a3) (b1, b2, b3))"
      by (simp add: Version_ge_def lt)
    show ?thesis by (intro conjI eq ne lt le gt ge)
  qed
  have p1: "\<forall>w. Version_init s None = Inr w \<longrightarrow>
      Version_eq v (PyStr s) = Version_eq v (PyVersion w) \<and>
      Version_ne v (PyStr s) = Version_ne v (PyVersion w) \<and>
      Version_lt v (PyStr s) = Version_lt v (PyVersion w) \<and>
      Version_le v (PyStr s) = Version_le v (PyVersion w) \<and>
      Version_gt v (PyStr s) = Version_gt v (PyVersion w) \<and>
      Version_ge v (PyStr s) = Version_ge v (PyVersion w)"
  proof (intro allI impI)
    fix w assume "Version_init s None = Inr w"
    then have "validate_operand v (PyStr s) = Inr w" by (simp add: validate_operand_str)
    note c = compare_validated [OF this]
    show "Version_eq v (PyStr s) = Version_eq v (PyVersion w) \<and>
      Version_ne v (PyStr s) = Version_ne v (PyVersion w) \<and>
      Version_lt v (PyStr s) = Version_lt v (PyVersion w) \<and>
      Version_le v (PyStr s) = Version_le v (PyVersion w) \<and>
      Version_gt v (PyStr s) = Version_gt v (PyVersion w) \<and>
      Version_ge v (PyStr s) = Version_ge v (PyVersion w)"
      by (intro conjI c)
  qed
  have p2: "\<forall>a1 a2 a3 w.
      major v = Num a1 \<and> minor v = Num a2 \<and> patch v = Num a3 \<and>
      Version_init s None = Inr w \<longrightarrow>
      (\<exists>b1 b2 b3. major w = Num b1 \<and> minor w = Num b2 \<and> patch w = Num b3 \<and>
         Version_eq v (PyStr s) = Inr (a1 = b1 \<and> a2 = b2 \<and> a3 = b3) \<and>
         Version_ne v (PyStr s) = Inr (\<not> (a1 = b1 \<and> a2 = b2 \<and> a3 = b3)) \<and>
         Version_lt v (PyStr s) = Inr (lex_less (a1, a2, a3) (b1, b2, b3)) \<and>
         Version_le v (PyStr s) = Inr (\<not> lex_less (b1, b2, b3) (a1, a2, a3)) \<and>
         Version_gt v (PyStr s) = Inr (lex_less (b1, b2, b3) (a1, a2, a3)) \<and>
         Version_ge v (PyStr s) = Inr (\<not> lex_less (a1, a2, a3) (b1, b2, b3)))"
  proof (intro allI impI, elim conjE)
    fix a1 a2 a3 w
    assume v: "major v = Num a1" "minor v = Num a2" "patch v = Num a3"
      and w: "Version_init s None = Inr w"
    from Version_init_fields [OF w] obtain b1 b2 b3 where
      f: "major w = Num b1" "minor w = Num b2" "patch w = Num b3" by blast
    note r = cmp [OF v w f]
    show "\<exists>b1 b2 b3. major w = Num b1 \<and> minor w = Num b2 \<and> patch w = Num b3 \<and>
         Version_eq v (PyStr s) = Inr (a1 = b1 \<and> a2 = b2 \<and> a3 = b3) \<and>
         Version_ne v (PyStr s) = Inr (\<not> (a1 = b1 \<and> a2 = b2 \<and> a3 = b3)) \<and>
         Version_lt v (PyStr s) = Inr (lex_less (a1, a2, a3) (b1, b2, b3)) \<and>
         Version_le v (PyStr s) = Inr (\<not> lex_less (b1, b2, b3) (a1, a2, a3)) \<and>
         Version_gt v (PyStr s) = Inr (lex_less (b1, b2, b3) (a1, a2, a3)) \<and>
         Version_ge v (PyStr s) = Inr (\<not> lex_less (a1, a2, a3) (b1, b2, b3))"
      by (intro exI [of _ b1] exI [of _ b2] exI [of _ b3] conjI f r [THEN conjunct1]
          r [THEN conjunct2, THEN conjunct1]
          r [THEN conjunct2, THEN conjunct2, THEN conjunct1]
          r [THEN conjunct2, THEN conjunct2, THEN conjunct2, THEN conjunct1]
          r [THEN conjunct2, THEN conjunct2, THEN conjunct2, THEN conjunct2, THEN conjunct1]
          r [THEN conjunct2, THEN conjunct2, THEN conjunct2, THEN conjunct2, THEN conjunct2])
  qed
  have p3: "\<forall>a1 a2 a3 x y z.
      major v = Num a1 \<and> minor v = Num a2 \<and> patch v = Num a3 \<and>
      is_number x \<and> is_number y \<and> is_number z \<and> s = x @ ''.'' @ y @ ''.'' @ z \<longrightarrow>
      Version_eq v (PyStr s) = Inr (a1 = py_int x \<and> a2 = py_int y \<and> a3 = py_int z) \<and>
      Version_ne v (PyStr s) = Inr (\<not> (a1 = py_int x \<and> a2 = py_int y \<and> a3 = py_int z)) \<and>
      Version_lt v (PyStr s) = Inr (lex_less (a1, a2, a3) (py_int x, py_int y, py_int z)) \<and>
      Version_le v (PyStr s) = Inr (\<not> lex_less (py_int x, py_int y, py_int z) (a1, a2, a3)) \<and>
      Version_gt v (PyStr s) = Inr (lex_less (py_int x, py_int y, py_int z) (a1, a2, a3)) \<and>
      Version_ge v (PyStr s) = Inr (\<not> lex_less (a1, a2, a3) (py_int x, py_int y, py_int z))"
  proof (intro allI impI, elim conjE)
    fix a1 a2 a3 x y z
    assume v: "major v = Num a1" "minor v = Num a2" "patch v = Num a3"
      and n: "is_number x" "is_number y" "is_number z"
      and s: "s = x @ ''.'' @ y @ ''.'' @ z"
    let ?w = "\<lparr>features = instance_features None, major = Num (py_int x),
                minor = Num (py_int y), patch = Num (py_int z)\<rparr>"
    have "Version_init (x @ ''.'' @ y @ ''.'' @ z @ []) None = Inr ?w"
      by (rule Version_init_accepts) (simp_all add: n at_end_def)
    then have w: "Version_init s None = Inr ?w" by (simp add: s)
    show "Version_eq v (PyStr s) = Inr (a1 = py_int x \<and> a2 = py_int y \<and> a3 = py_int z) \<and>
      Version_ne v (PyStr s) = Inr (\<not> (a1 = py_int x \<and> a2 = py_int y \<and> a3 = py_int z)) \<and>
      Version_lt v (PyStr s) = Inr (lex_less (a1, a2, a3) (py_int x, py_int y, py_int z)) \<and>
      Version_le v (PyStr s) = Inr (\<not> lex_less (py_int x, py_int y, py_int z) (a1, a2, a3)) \<and>
      Version_gt v (PyStr s) = Inr (lex_less (py_int x, py_int y, py_int z) (a1, a2, a3)) \<and>
      Version_ge v (PyStr s) = Inr (\<not> lex_less (a1, a2, a3) (py_int x, py_int y, py_int z))"
      by (rule cmp [OF v w]) simp_all
  qed
  have p4: "\<forall>e. Version_init s None = Inl e \<longrightarrow>
      e = ValueError (invalid_version_msg s False) \<and>
      Version_eq v (PyStr s) = Inl e \<and> Version_ne v (PyStr s) = Inl e \<and>
      Version_lt v (PyStr s) = Inl e \<and> Version_le v (PyStr s) = Inl e \<and>
      Version_gt v (PyStr s) = Inl e \<and> Version_ge v (PyStr s) = Inl e"
  proof (intro allI impI)
    fix e assume e: "Version_init s None = Inl e"
    then have m: "e = ValueError (invalid_version_msg s False)"
      using Version_init_rejects [of s None] by auto
    from e have "validate_operand v (PyStr s) = Inl e" by (simp add: validate_operand_str)
    note c = compare_raises [OF this]
    show "e = ValueError (invalid_version_msg s False) \<and>
      Version_eq v (PyStr s) = Inl e \<and> Version_ne v (PyStr s) = Inl e \<and>
      Version_lt v (PyStr s) = Inl e \<and> Version_le v (PyStr s) = Inl e \<and>
      Version_gt v (PyStr s) = Inl e \<and> Version_ge v (PyStr s) = Inl e"
      by (intro conjI m c)
  qed
  let ?a = "\<lparr>features = DEFAULT_FEATURES, major = Num 1, minor = Num 0, patch = Num 0\<rparr>"
  let ?b = "\<lparr>features = DEFAULT_FEATURES, major = Num 1, minor = Num 0, patch = Num 1\<rparr>"
  have a: "Version_init ''1.0.0'' None = Inr ?a" and b: "Version_init ''1.0.1'' None = Inr ?b"
    by (simp_all add: Version_init_def str_to_version_def reg_match_def group_v_def
        digits_plus_def dot_lit_def at_end_def is_digit_def convert_def py_int_def digit_val_def)
  have "Version_eq ?a (PyStr ''1.0.0'') = Inr True"
    by (simp add: Version_eq_def validate_operand_str a tuple_def)
  with a have p5: "\<exists>a. Version_init ''1.0.0'' None = Inr a \<and> Version_eq a (PyStr ''1.0.0'') = Inr True"
    by blast
  have "Version_gt ?b (PyStr ''1.0.0'') = Inr True"
    by (simp add: Version_gt_def Version_lt_def Version_ne_def Version_eq_def
        validate_operand_str a tuple_def tuple_lt_def)
  with b have p6: "\<exists>b. Version_init ''1.0.1'' None = Inr b \<and> Version_gt b (PyStr ''1.0.0'') = Inr True"
    by blast
  show ?thesis
    by (rule conjI [OF p1 conjI [OF p2 conjI [OF p3 conjI [OF p4 conjI [OF p5 p6]]]]])
qed

theorem compare_with_string_witness:
  "major \<lparr>features = DEFAULT_FEATURES, major = Num 1, minor = Num 0, patch = Num 0\<rparr> = Num 1 \<and>
   minor \<lparr>features = DEFAULT_FEATURES, major = Num 1, minor = Num 0, patch = Num 0\<rparr> = Num 0 \<and>
   patch \<lparr>features = DEFAULT_FEATURES, major = Num 1, minor = Num 0, patch = Num 0\<rparr> = Num 0 \<and>
   is_number ''1'' \<and> is_number ''0'' \<and> is_number ''2'' \<and>
   Version_init ''1.0.2'' None =
     Inr \<lparr>features = DEFAULT_FEATURES, major = Num 1, minor = Num 0, patch = Num 2\<rparr> \<and>
   Version_lt \<lparr>features = DEFAULT_FEATURES, major = Num 1, minor = Num 0, patch = Num 0\<rparr>
     (PyStr ''1.0.2'') = Inr True \<and>
   Version_le \<lparr>features = DEFAULT_FEATURES, major = Num 1, minor = Num 0, patch = Num 0\<rparr>
     (PyStr ''1.0.2'') = Inr True \<and>
   Version_gt \<lparr>features = DEFAULT_FEATURES, major = Num 1, minor = Num 0, patch = Num 0\<rparr>
     (PyStr ''1.0.2'') = Inr False \<and>
   Version_ge \<lparr>features = DEFAULT_FEATURES, major = Num 1, minor = Num 0, patch = Num 0\<rparr>
     (PyStr ''1.0.2'') = Inr False \<and>
   Version_eq \<lparr>features = DEFAULT_FEATURES, major = Num 1, minor = Num 0, patch = Num 0\<rparr>
     (PyStr ''1.0.2'') = Inr False \<and>
   Version_ne \<lparr>features = DEFAULT_FEATURES, major = Num 1, minor = Num 0, patch = Num 0\<rparr>
     (PyStr ''1.0.2'') = Inr True \<and>
   Version_init ''latest'' None = Inl (ValueError (invalid_version_msg ''latest'' False)) \<and>
   Version_eq \<lparr>features = DEFAULT_FEATURES, major = Num 1, minor = Num 0, patch = Num 0\<rparr>
     (PyStr ''latest'') = Inl (ValueError (invalid_version_msg ''latest'' False)) \<and>
   Version_lt \<lparr>features = DEFAULT_FEATURES, major = Num 1, minor = Num 0, patch = Num 0\<rparr>
     (PyStr ''latest'') = Inl (ValueError (invalid_version_msg ''latest'' False))"
proof -
  let ?v = "\<lparr>features = DEFAULT_FEATURES, major = Num 1, minor = Num 0, patch = Num 0\<rparr>"
  let ?w = "\<lparr>features = DEFAULT_FEATURES, major = Num 1, minor = Num 0, patch = Num 2\<rparr>"
  have f: "major ?v = Num 1" "minor ?v = Num 0" "patch ?v = Num 0" by simp_all
  have n: "is_number ''1''" "is_number ''0''" "is_number ''2''"
    by (simp_all add: is_number_def is_digit_def)
  have p: "py_int ''1'' = 1" "py_int ''0'' = 0" "py_int ''2'' = 2"
    by (simp_all add: py_int_def digit_val_def)
  have s: "''1.0.2'' = ''1'' @ ''.'' @ ''0'' @ ''.'' @ ''2''" by simp
  have w: "Version_init ''1.0.2'' None = Inr ?w"
    by (simp add: Version_init_def str_to_version_def reg_match_def group_v_def
        digits_plus_def dot_lit_def at_end_def is_digit_def convert_def py_int_def digit_val_def)
  have l: "Version_init ''latest'' None = Inl (ValueError (invalid_version_msg ''latest'' False))"
    by (simp add: Version_init_def str_to_version_def reg_match_def group_v_def
        digits_plus_def dot_lit_def at_end_def is_digit_def)
  have "Version_lt ?v (PyStr ''1.0.2'') = Inr True" and "Version_le ?v (PyStr ''1.0.2'') = Inr True"
    and "Version_gt ?v (PyStr ''1.0.2'') = Inr False" and "Version_ge ?v (PyStr ''1.0.2'') = Inr False"
    and "Version_eq ?v (PyStr ''1.0.2'') = Inr False" and "Version_ne ?v (PyStr ''1.0.2'') = Inr True"
    by (simp_all add: Version_lt_def Version_le_def Version_gt_def Version_ge_def Version_eq_def
        Version_ne_def validate_operand_def w tuple_lt_def tuple_def)
  note strings = compare_with_string [of "''1.0.2''" ?v, THEN conjunct2, THEN conjunct2,
      THEN conjunct1, rule_format, of 1 0 0 "''1''" "''0''" "''2''"]
  have "Version_eq ?v (PyStr ''1.0.2'') =
          Inr ((1::int) = py_int ''1'' \<and> (0::int) = py_int ''0'' \<and> (0::int) = py_int ''2'') \<and>
        Version_ne ?v (PyStr ''1.0.2'') =
          Inr (\<not> ((1::int) = py_int ''1'' \<and> (0::int) = py_int ''0'' \<and> (0::int) = py_int ''2'')) \<and>
        Version_lt ?v (PyStr ''1.0.2'') =
          Inr (lex_less (1, 0, 0) (py_int ''1'', py_int ''0'', py_int ''2'')) \<and>
        Version_le ?v (PyStr ''1.0.2'') =
          Inr (\<not> lex_less (py_int ''1'', py_int ''0'', py_int ''2'') (1, 0, 0)) \<and>
        Version_gt ?v (PyStr ''1.0.2'') =
          Inr (lex_less (py_int ''1'', py_int ''0'', py_int ''2'') (1, 0, 0)) \<and>
        Version_ge ?v (PyStr ''1.0.2'') =
          Inr (\<not> lex_less (1, 0, 0) (py_int ''1'', py_int ''0'', py_int ''2''))"
    by (rule strings) (intro conjI f n s)
  then have r: "Version_lt ?v (PyStr ''1.0.2'') = Inr True"
    "Version_le ?v (PyStr ''1.0.2'') = Inr True" "Version_gt ?v (PyStr ''1.0.2'') = Inr False"
    "Version_ge ?v (PyStr ''1.0.2'') = Inr False" "Version_eq ?v (PyStr ''1.0.2'') = Inr False"
    "Version_ne ?v (PyStr ''1.0.2'') = Inr True"
    by (simp_all add: p lex_less_def)
  note fails = compare_with_string [of "''latest''" ?v, THEN conjunct2, THEN conjunct2,
      THEN conjunct2, THEN conjunct1, rule_format, OF l]
  from fails have e: "Version_eq ?v (PyStr ''latest'') =
      Inl (ValueError (invalid_version_msg ''latest'' False))"
    "Version_lt ?v (PyStr ''latest'') = Inl (ValueError (invalid_version_msg ''latest'' False))"
    by simp_all
  from f n w r l e show ?thesis by (intro conjI)
qed

text \<open>
  Claim C6. For an operand that is neither a string nor a \<open>Version\<close>, each of the six
  comparisons raises the \<open>AssertionError\<close> of \<open>_validate_operand\<close>, whose message is the
  operand, its type and the words \<open>cannot be compared to version.\<close>; none returns a truth
  value and none raises another exception.
\<close>

theorem compare_with_other_type:
  assumes "\<not> isinstance_str other" and "\<not> isinstance_Version other"
  shows "(\<forall>r \<in> {Version_eq v other, Version_ne v other, Version_lt v other,
                  Version_le v other, Version_gt v other, Version_ge v other}.
            r = Inl (AssertionError
                  (py_str other @ '' (type '' @ py_type other @ '') cannot be compared to version.'')))"
  using compare_raises [OF validate_operand_other [OF assms, of v]]
  by (simp add: cannot_compare_msg_def)

theorem compare_with_other_type_witness:
  "\<not> isinstance_str (PyInt 5) \<and> \<not> isinstance_Version (PyInt 5) \<and>
   Version_eq \<lparr>features = DEFAULT_FEATURES, major = Num 1, minor = Num 0, patch = Num 0\<rparr>
     (PyInt 5) =
   Inl (AssertionError (''5 (type <class 'int'>) cannot be compared to version.''))"
  using compare_with_other_type [of "PyInt 5"
      "\<lparr>features = DEFAULT_FEATURES, major = Num 1, minor = Num 0, patch = Num 0\<rparr>"]
  by (simp add: str_int_def str_nat.simps digit_char_def)

section \<open>Features\<close>

lemma Version_init_features:
  assumes "Version_init s feats = Inr v"
  shows "features v = instance_features feats"
  using Version_init_sound [OF assms] by auto

lemma lookup_instance_features:
  "fmlookup (instance_features feats) k =
     (case feats of
        None \<Rightarrow> fmlookup DEFAULT_FEATURES k
      | Some f \<Rightarrow> (case fmlookup f k of None \<Rightarrow> fmlookup DEFAULT_FEATURES k | Some b \<Rightarrow> Some b))"
  by (auto simp: instance_features_def split: option.splits)

lemma lookup_DEFAULT_FEATURES:
  "fmlookup DEFAULT_FEATURES k = (if k = KFeature DUMMY then Some False else None)"
  by (simp add: DEFAULT_FEATURES_def)

text \<open>
  Claim C7. For a constructed instance \<open>v\<close> and any key \<open>f\<close>: the dictionary of \<open>v\<close> has an
  entry for \<open>f\<close> exactly when \<open>f\<close> is a key of the default dictionary or of the \<open>features\<close>
  argument; when it has one, \<open>v.implements(f)\<close> returns the stored truth value; when it has
  none, \<open>v.implements(f)\<close> raises \<open>KeyError(f)\<close> and returns nothing.
\<close>

theorem implements_lookup_or_KeyError:
  assumes "Version_init s feats = Inr v"
  shows "(f |\<in>| fmdom (features v) \<longleftrightarrow>
            f |\<in>| fmdom DEFAULT_FEATURES \<or> (\<exists>g. feats = Some g \<and> f |\<in>| fmdom g)) \<and>
         (\<forall>b. fmlookup (features v) f = Some b \<longrightarrow> implements v f = Inr b) \<and>
         (fmlookup (features v) f = None \<longrightarrow> implements v f = Inl (KeyError f))"
proof (intro conjI)
  show "f |\<in>| fmdom (features v) \<longleftrightarrow>
            f |\<in>| fmdom DEFAULT_FEATURES \<or> (\<exists>g. feats = Some g \<and> f |\<in>| fmdom g)"
    unfolding Version_init_features [OF assms]
    by (cases feats) (auto simp: instance_features_def)
  show "\<forall>b. fmlookup (features v) f = Some b \<longrightarrow> implements v f = Inr b"
    by (simp add: implements_def)
  show "fmlookup (features v) f = None \<longrightarrow> implements v f = Inl (KeyError f)"
    by (simp add: implements_def)
qed

theorem implements_lookup_or_KeyError_witness:
  "Version_init ''1.0.0'' (Some (fmupd (KStr ''extra'') True fmempty)) =
     Inr \<lparr>features = fmupd (KStr ''extra'') True (fmupd (KFeature DUMMY) False fmempty),
          major = Num 1, minor = Num 0, patch = Num 0\<rparr> \<and>
   implements \<lparr>features = fmupd (KStr ''extra'') True (fmupd (KFeature DUMMY) False fmempty),
          major = Num 1, minor = Num 0, patch = Num 0\<rparr> (KStr ''extra'') = Inr True \<and>
   implements \<lparr>features = fmupd (KStr ''extra'') True (fmupd (KFeature DUMMY) False fmempty),
          major = Num 1, minor = Num 0, patch = Num 0\<rparr> (KFeature DUMMY) = Inr False \<and>
   implements \<lparr>features = fmupd (KStr ''extra'') True (fmupd (KFeature DUMMY) False fmempty),
          major = Num 1, minor = Num 0, patch = Num 0\<rparr> (KStr ''other'') =
     Inl (KeyError (KStr ''other''))"
proof -
  let ?v = "\<lparr>features = fmupd (KStr ''extra'') True (fmupd (KFeature DUMMY) False fmempty),
          major = Num 1, minor = Num 0, patch = Num 0\<rparr>"
  have a: "Version_init ''1.0.0'' (Some (fmupd (KStr ''extra'') True fmempty)) = Inr ?v"
    by (simp add: Version_init_def DEFAULT_FEATURES_def str_to_version_def reg_match_def
        group_v_def digits_plus_def dot_lit_def at_end_def is_digit_def convert_def py_int_def
        digit_val_def)
  have "fmlookup (features ?v) (KStr ''extra'') = Some True" by simp
  with implements_lookup_or_KeyError [OF a, of "KStr ''extra''"]
  have b: "implements ?v (KStr ''extra'') = Inr True" by blast
  have "fmlookup (features ?v) (KFeature DUMMY) = Some False" by simp
  with implements_lookup_or_KeyError [OF a, of "KFeature DUMMY"]
  have c: "implements ?v (KFeature DUMMY) = Inr False" by blast
  have "fmlookup (features ?v) (KStr ''other'') = None" by simp
  with implements_lookup_or_KeyError [OF a, of "KStr ''other''"]
  have d: "implements ?v (KStr ''other'') = Inl (KeyError (KStr ''other''))" by blast
  from a b c d show ?thesis by (intro conjI)
qed

text \<open>
  Claim C8. The dictionary of a new instance is the default dictionary when no \<open>features\<close> are
  given, and otherwise the default dictionary with every entry of \<open>features\<close> stored over it:
  a key of \<open>features\<close> has the value given there, whether or not the default dictionary has the
  key, and every other key has its default. The default dictionary itself is the same for the
  next instance. With the default \<open>{DUMMY: False}\<close>, \<open>Version("1.0.0").implements(DUMMY)\<close> is
  false and \<open>Version("1.0.0", features={DUMMY: True}).implements(DUMMY)\<close> is true.
\<close>

theorem features_default_and_override:
  assumes "Version_init s feats = Inr v"
  shows "(feats = None \<longrightarrow> features v = DEFAULT_FEATURES) \<and>
         (\<forall>g. feats = Some g \<longrightarrow>
            features v = DEFAULT_FEATURES ++\<^sub>f g \<and>
            (\<forall>k b. fmlookup g k = Some b \<longrightarrow> implements v k = Inr b) \<and>
            (\<forall>k. fmlookup g k = None \<longrightarrow>
               fmlookup (features v) k = fmlookup DEFAULT_FEATURES k)) \<and>
         (\<forall>t w. Version_init t None = Inr w \<longrightarrow> implements w (KFeature DUMMY) = Inr False) \<and>
         (\<exists>a. Version_init ''1.0.0'' None = Inr a \<and> implements a (KFeature DUMMY) = Inr False) \<and>
         (\<exists>b. Version_init ''1.0.0'' (Some (fmupd (KFeature DUMMY) True fmempty)) = Inr b \<and>
              implements b (KFeature DUMMY) = Inr True)"
proof (intro conjI allI impI)
  note f = Version_init_features [OF assms]
  show "features v = DEFAULT_FEATURES" if "feats = None"
    using f that by (simp add: instance_features_def)
  show "features v = DEFAULT_FEATURES ++\<^sub>f g" if "feats = Some g" for g
    using f that by (simp add: instance_features_def)
  show "implements v k = Inr b" if "feats = Some g" and "fmlookup g k = Some b" for g k b
    using that by (simp add: implements_def f lookup_instance_features)
  show "fmlookup (features v) k = fmlookup DEFAULT_FEATURES k"
    if "feats = Some g" and "fmlookup g k = None" for g k
    using that by (simp add: f lookup_instance_features)
  show "implements w (KFeature DUMMY) = Inr False" if "Version_init t None = Inr w" for t w
    using Version_init_features [OF that]
    by (simp add: implements_def lookup_instance_features lookup_DEFAULT_FEATURES)
next
  let ?a = "\<lparr>features = DEFAULT_FEATURES, major = Num 1, minor = Num 0, patch = Num 0\<rparr>"
  have "Version_init ''1.0.0'' None = Inr ?a"
    by (simp add: Version_init_def str_to_version_def reg_match_def group_v_def
        digits_plus_def dot_lit_def at_end_def is_digit_def convert_def py_int_def digit_val_def)
  moreover have "implements ?a (KFeature DUMMY) = Inr False"
    by (simp add: implements_def DEFAULT_FEATURES_def)
  ultimately show "\<exists>a. Version_init ''1.0.0'' None = Inr a \<and>
      implements a (KFeature DUMMY) = Inr False"
    by blast
next
  let ?b = "\<lparr>features = fmupd (KFeature DUMMY) True (fmupd (KFeature DUMMY) False fmempty),
             major = Num 1, minor = Num 0, patch = Num 0\<rparr>"
  have "Version_init ''1.0.0'' (Some (fmupd (KFeature DUMMY) True fmempty)) = Inr ?b"
    by (simp add: Version_init_def DEFAULT_FEATURES_def str_to_version_def reg_match_def
        group_v_def digits_plus_def dot_lit_def at_end_def is_digit_def convert_def py_int_def
        digit_val_def)
  moreover have "implements ?b (KFeature DUMMY) = Inr True"
    by (simp add: implements_def)
  ultimately show "\<exists>b. Version_init ''1.0.0'' (Some (fmupd (KFeature DUMMY) True fmempty)) = Inr b \<and>
      implements b (KFeature DUMMY) = Inr True"
    by blast
qed

theorem features_default_and_override_witness:
  "Version_init ''1.0.0'' (Some (fmupd (KInt 7) True (fmupd (KFeature DUMMY) True fmempty))) =
     Inr \<lparr>features = DEFAULT_FEATURES ++\<^sub>f fmupd (KInt 7) True (fmupd (KFeature DUMMY) True fmempty),
          major = Num 1, minor = Num 0, patch = Num 0\<rparr> \<and>
   implements \<lparr>features = DEFAULT_FEATURES ++\<^sub>f fmupd (KInt 7) True (fmupd (KFeature DUMMY) True fmempty),
          major = Num 1, minor = Num 0, patch = Num 0\<rparr> (KInt 7) = Inr True \<and>
   implements \<lparr>features = DEFAULT_FEATURES ++\<^sub>f fmupd (KInt 7) True (fmupd (KFeature DUMMY) True fmempty),
          major = Num 1, minor = Num 0, patch = Num 0\<rparr> (KFeature DUMMY) = Inr True \<and>
   Version_init ''2.0.0'' None =
     Inr \<lparr>features = DEFAULT_FEATURES, major = Num 2, minor = Num 0, patch = Num 0\<rparr> \<and>
   implements \<lparr>features = DEFAULT_FEATURES, major = Num 2, minor = Num 0, patch = Num 0\<rparr>
     (KFeature DUMMY) = Inr False"
proof -
  let ?g = "fmupd (KInt 7) True (fmupd (KFeature DUMMY) True fmempty)"
  have a: "Version_init ''1.0.0'' (Some ?g) =
     Inr \<lparr>features = DEFAULT_FEATURES ++\<^sub>f ?g, major = Num 1, minor = Num 0, patch = Num 0\<rparr>"
    by (simp add: Version_init_def str_to_version_def reg_match_def
        group_v_def digits_plus_def dot_lit_def at_end_def is_digit_def convert_def py_int_def
        digit_val_def)
  have b: "Version_init ''2.0.0'' None =
     Inr \<lparr>features = DEFAULT_FEATURES, major = Num 2, minor = Num 0, patch = Num 0\<rparr>"
    by (simp add: Version_init_def str_to_version_def reg_match_def group_v_def
        digits_plus_def dot_lit_def at_end_def is_digit_def convert_def py_int_def digit_val_def)
  from features_default_and_override [OF a] features_default_and_override [OF b] a b
  show ?thesis by simp
qed

end
